theory Spec2Isabelle
  imports Complex_Main "HOL-Library.Multiset"
begin

section \<open>Skin tone classifier (ai/face\_analysis/skin\_tone.py)\<close>

text \<open>
  Python floats are read as real numbers where the thresholds of a classifier decide:
  they are compared exactly, and the arithmetic between the comparisons is the exact
  one. The undertone classifier is the exception: its confidence sits on the bound 0.95,
  where rounding decides, so each of its operations is rounded to double precision.
\<close>

datatype FitzpatrickType = TYPE_I | TYPE_II | TYPE_III | TYPE_IV | TYPE_V | TYPE_VI

text \<open>The \<open>.value\<close> of the enum members.\<close>

fun fitz_value :: "FitzpatrickType \<Rightarrow> int" where
  "fitz_value TYPE_I = 1"
| "fitz_value TYPE_II = 2"
| "fitz_value TYPE_III = 3"
| "fitz_value TYPE_IV = 4"
| "fitz_value TYPE_V = 5"
| "fitz_value TYPE_VI = 6"

datatype Undertone = COOL | WARM | NEUTRAL

text \<open>
  \<open>FITZPATRICK_L_THRESHOLDS\<close>: a dict literal, iterated in insertion order, so an
  association list in the order of the source.
\<close>

definition FITZPATRICK_L_THRESHOLDS :: "(FitzpatrickType \<times> real \<times> real) list" where
  "FITZPATRICK_L_THRESHOLDS =
     [(TYPE_I, (75, 100)),
      (TYPE_II, (65, 75)),
      (TYPE_III, (55, 65)),
      (TYPE_IV, (45, 55)),
      (TYPE_V, (35, 45)),
      (TYPE_VI, (0, 35))]"

text \<open>
  The \<open>for\<close> loop of \<open>_classify_fitzpatrick\<close>: the first band that holds the value
  returns; \<open>None\<close> is the loop running to its end.
\<close>

fun fitzpatrick_loop ::
  "(FitzpatrickType \<times> real \<times> real) list \<Rightarrow> real \<Rightarrow> (FitzpatrickType \<times> real) option" where
  "fitzpatrick_loop [] l_value = None"
| "fitzpatrick_loop ((fitz_type, (low, high)) # rest) l_value =
     (if low \<le> l_value \<and> l_value < high then
        (let range_size = high - low;
             center = (low + high) / 2;
             distance_from_center = \<bar>l_value - center\<bar>;
             confidence = 1 - (distance_from_center / (range_size / 2))
         in Some (fitz_type, max 0.7 (min 0.98 confidence)))
      else fitzpatrick_loop rest l_value)"

definition classify_fitzpatrick :: "real \<Rightarrow> FitzpatrickType \<times> real" where
  "classify_fitzpatrick l_value =
     (case fitzpatrick_loop FITZPATRICK_L_THRESHOLDS l_value of
        Some r \<Rightarrow> r
      | None \<Rightarrow> if l_value \<ge> 75 then (TYPE_I, 0.85) else (TYPE_VI, 0.85))"

text \<open>The confidence formula in the words of the specification, for a band \<open>[low, high)\<close>.\<close>

definition band_confidence :: "real \<Rightarrow> real \<Rightarrow> real \<Rightarrow> real" where
  "band_confidence low high l =
     max 0.7 (min 0.98 (1 - \<bar>l - (low + high) / 2\<bar> / ((high - low) / 2)))"

text \<open>
  Double precision (IEEE 754 binary64): a real is rounded to the nearest double, a tie
  to the one with the even significand. The unit in the last place of \<open>x\<close> is
  \<open>2 ^ (e - 52)\<close> for \<open>2 ^ e \<le> |x| < 2 ^ (e + 1)\<close>, and \<open>2 ^ (- 1074)\<close>
  below the normal range. Overflow to infinity is left out: the values of the undertone
  classifier are far from it. A literal is rounded when it is read, and every
  arithmetic operation rounds its exact result.
\<close>

definition round_half_even :: "real \<Rightarrow> int" where
  "round_half_even x =
     (let f = \<lfloor>x\<rfloor>; d = x - of_int f
      in if d < 1 / 2 then f else if d > 1 / 2 then f + 1 else if even f then f else f + 1)"

definition binary64 :: "real \<Rightarrow> real" where
  "binary64 x =
     (if x = 0 then 0
      else (let e = max (\<lfloor>log 2 \<bar>x\<bar>\<rfloor>) (- 1022) - 52
            in of_int (round_half_even (x / 2 powi e)) * 2 powi e))"

definition fadd :: "real \<Rightarrow> real \<Rightarrow> real" where
  "fadd x y = binary64 (x + y)"

definition fsub :: "real \<Rightarrow> real \<Rightarrow> real" where
  "fsub x y = binary64 (x - y)"

definition fmul :: "real \<Rightarrow> real \<Rightarrow> real" where
  "fmul x y = binary64 (x * y)"

definition fdiv :: "real \<Rightarrow> real \<Rightarrow> real" where
  "fdiv x y = binary64 (x / y)"

text \<open>
  \<open>_classify_undertone\<close>, in double precision. The divisor is never zero: a zero
  \<open>a_shifted\<close> is replaced first.
\<close>

definition classify_undertone :: "real \<Rightarrow> real \<Rightarrow> Undertone \<times> real" where
  "classify_undertone a_value b_value =
     (let a_shifted = fadd a_value 128;
          b_shifted = fadd b_value 128;
          a_shifted = (if a_shifted = 0 then binary64 0.01 else a_shifted);
          ratio = fdiv b_shifted a_shifted
      in if ratio > binary64 1.1 then
           (WARM, min (binary64 0.95)
                      (fadd (binary64 0.7) (fmul (fsub ratio (binary64 1.1)) (binary64 0.1))))
         else if ratio < binary64 0.9 then
           (COOL, min (binary64 0.95)
                      (fadd (binary64 0.7) (fmul (fsub (binary64 0.9) ratio) (binary64 0.1))))
         else
           (NEUTRAL, fadd (binary64 0.8)
                          (fmul (fsub (binary64 1.0) \<bar>fsub ratio (binary64 1.0)\<bar>)
                                (binary64 0.15))))"

definition get_season :: "FitzpatrickType \<Rightarrow> Undertone \<Rightarrow> string" where
  "get_season fitzpatrick undertone =
     (let is_light = (fitz_value fitzpatrick \<le> 3);
          is_warm = (undertone = WARM)
      in if is_light \<and> is_warm then ''spring''
         else if is_light \<and> \<not> is_warm then ''summer''
         else if \<not> is_light \<and> is_warm then ''autumn''
         else ''winter'')"

subsection \<open>The sibling season rule (ai/recommendation\_engine/color\_theory.py)\<close>

datatype ColorSeason = SPRING | SUMMER | AUTUMN | WINTER

fun season_value :: "ColorSeason \<Rightarrow> string" where
  "season_value SPRING = ''spring''"
| "season_value SUMMER = ''summer''"
| "season_value AUTUMN = ''autumn''"
| "season_value WINTER = ''winter''"

text \<open>\<open>str.lower\<close> on the ASCII letters, which is all the undertone names hold.\<close>

definition lower_char :: "char \<Rightarrow> char" where
  "lower_char c =
     (let n = (of_char c :: nat) in if 65 \<le> n \<and> n \<le> 90 then char_of (n + 32) else c)"

definition lower :: "string \<Rightarrow> string" where
  "lower s = map lower_char s"

definition determine_season :: "int \<Rightarrow> string \<Rightarrow> ColorSeason" where
  "determine_season fitzpatrick_type undertone =
     (let is_light = (fitzpatrick_type \<le> 3);
          is_warm = (lower undertone = ''warm'');
          is_warm = (if lower undertone = ''neutral'' then is_light else is_warm)
      in if is_light \<and> is_warm then SPRING
         else if is_light \<and> \<not> is_warm then SUMMER
         else if \<not> is_light \<and> is_warm then AUTUMN
         else WINTER)"

section \<open>Face shape classifier (ai/face\_analysis/face\_shape.py)\<close>

datatype py_error = ZeroDivisionError | ValueError | KeyError | IndexError | CvError

text \<open>A raise ends the computation: the rest runs only on a value.\<close>

definition bind_err :: "py_error + 'a \<Rightarrow> ('a \<Rightarrow> py_error + 'b) \<Rightarrow> py_error + 'b" where
  "bind_err x f = (case x of Inl e \<Rightarrow> Inl e | Inr v \<Rightarrow> f v)"

text \<open>Python's \<open>/\<close> on floats raises on a zero divisor.\<close>

definition py_truediv :: "real \<Rightarrow> real \<Rightarrow> py_error + real" where
  "py_truediv a b = (if b = 0 then Inl ZeroDivisionError else Inr (a / b))"

text \<open>\<open>d.get(k, dflt)\<close>.\<close>

definition dict_get :: "('k \<rightharpoonup> 'v) \<Rightarrow> 'k \<Rightarrow> 'v \<Rightarrow> 'v" where
  "dict_get d k dflt = (case d k of None \<Rightarrow> dflt | Some v \<Rightarrow> v)"

datatype FaceShape = OVAL | ROUND | SQUARE | HEART | OBLONG | DIAMOND | TRIANGLE

fun shape_value :: "FaceShape \<Rightarrow> string" where
  "shape_value OVAL = ''oval''"
| "shape_value ROUND = ''round''"
| "shape_value SQUARE = ''square''"
| "shape_value HEART = ''heart''"
| "shape_value OBLONG = ''oblong''"
| "shape_value DIAMOND = ''diamond''"
| "shape_value TRIANGLE = ''triangle''"

text \<open>
  The result classes of the three classifiers all have a field \<open>confidence\<close>; the
  fields that would clash carry the class's initials.
\<close>

record FaceShapeResult =
  shape :: FaceShape
  fs_confidence :: real
  fs_measurements :: "string \<rightharpoonup> real"
  reasoning :: string

definition ROUND_LENGTH_WIDTH_THRESHOLD :: real where
  "ROUND_LENGTH_WIDTH_THRESHOLD = 1.1"

definition OBLONG_LENGTH_WIDTH_THRESHOLD :: real where
  "OBLONG_LENGTH_WIDTH_THRESHOLD = 1.3"

definition HEART_FOREHEAD_JAW_THRESHOLD :: real where
  "HEART_FOREHEAD_JAW_THRESHOLD = 1.1"

definition TRIANGLE_FOREHEAD_JAW_THRESHOLD :: real where
  "TRIANGLE_FOREHEAD_JAW_THRESHOLD = 0.9"

definition SQUARE_JAWLINE_ANGLE_THRESHOLD :: real where
  "SQUARE_JAWLINE_ANGLE_THRESHOLD = 150"

definition DIAMOND_CHEEKBONE_THRESHOLD :: real where
  "DIAMOND_CHEEKBONE_THRESHOLD = 1.05"

text \<open>
  The first part of \<open>_apply_classification_rules\<close> (down to the last store into
  \<open>scores\<close>): the dict of the seven scores, in the order the keys are inserted.
\<close>

definition shape_scores :: "real \<Rightarrow> real \<Rightarrow> real \<Rightarrow> real \<Rightarrow> real \<Rightarrow> (FaceShape \<times> real) list" where
  "shape_scores length_width forehead_jaw jawline_angle cheekbone_forehead_ratio cheekbone_jaw_ratio =
     (let round_score = 0
            + (if length_width < ROUND_LENGTH_WIDTH_THRESHOLD then 0.4 else 0)
            + (if 0.95 < forehead_jaw \<and> forehead_jaw < 1.05 then 0.3 else 0)
            + (if jawline_angle < 145 then 0.3 else 0);
          oblong_score = 0
            + (if length_width > OBLONG_LENGTH_WIDTH_THRESHOLD
               then 0.6 + min 0.4 ((length_width - 1.3) * 0.5) else 0)
            + (if 0.9 < forehead_jaw \<and> forehead_jaw < 1.1 then 0.2 else 0);
          heart_score = 0
            + (if forehead_jaw > HEART_FOREHEAD_JAW_THRESHOLD
               then 0.5 + min 0.3 ((forehead_jaw - 1.1) * 0.3) else 0)
            + (if length_width > 1.0 then 0.2 else 0);
          triangle_score = 0
            + (if forehead_jaw < TRIANGLE_FOREHEAD_JAW_THRESHOLD
               then 0.5 + min 0.3 ((0.9 - forehead_jaw) * 0.3) else 0);
          square_score = 0
            + (if jawline_angle > SQUARE_JAWLINE_ANGLE_THRESHOLD then 0.4 else 0)
            + (if length_width < 1.15 then 0.3 else 0)
            + (if 0.9 < forehead_jaw \<and> forehead_jaw < 1.1 then 0.3 else 0);
          diamond_score = 0
            + (if cheekbone_forehead_ratio > DIAMOND_CHEEKBONE_THRESHOLD then 0.4 else 0)
            + (if cheekbone_jaw_ratio > DIAMOND_CHEEKBONE_THRESHOLD then 0.4 else 0)
            + (if 1.1 < length_width \<and> length_width < 1.3 then 0.2 else 0);
          oval_score = 0
            + (if 1.1 < length_width \<and> length_width < 1.3 then 0.4 else 0)
            + (if 0.9 < forehead_jaw \<and> forehead_jaw < 1.1 then 0.3 else 0)
            + (if 130 < jawline_angle \<and> jawline_angle < 150 then 0.3 else 0)
      in [(ROUND, round_score), (OBLONG, oblong_score), (HEART, heart_score),
          (TRIANGLE, triangle_score), (SQUARE, square_score), (DIAMOND, diamond_score),
          (OVAL, oval_score)])"

text \<open>
  \<open>max(scores, key=scores.get)\<close>: the keys are visited in insertion order and a later one
  replaces the best so far only when its score is strictly greater; on no key at all
  \<open>max\<close> raises.
\<close>

fun max_loop :: "'k \<times> real \<Rightarrow> ('k \<times> real) list \<Rightarrow> 'k \<times> real" where
  "max_loop best [] = best"
| "max_loop best (kv # rest) = (if snd kv > snd best then max_loop kv rest else max_loop best rest)"

definition max_by_score :: "('k \<times> real) list \<Rightarrow> py_error + 'k" where
  "max_by_score scores =
     (case scores of [] \<Rightarrow> Inl ValueError | kv # rest \<Rightarrow> Inr (fst (max_loop kv rest)))"

text \<open>\<open>scores[key]\<close>.\<close>

definition dict_item :: "('k \<times> 'v) list \<Rightarrow> 'k \<Rightarrow> py_error + 'v" where
  "dict_item d k = (case map_of d k of None \<Rightarrow> Inl KeyError | Some v \<Rightarrow> Inr v)"

text \<open>
  \<open>_generate_reasoning\<close>. The rendering of a float with a given number of decimals
  (\<open>:.2f\<close>, \<open>:.0f\<close>) is the language's and is taken as the parameter \<open>fmt\<close>.
  The degree sign of the square face's sentence is its two bytes in UTF-8.
\<close>

definition generate_reasoning ::
  "(nat \<Rightarrow> real \<Rightarrow> string) \<Rightarrow> FaceShape \<Rightarrow> real \<Rightarrow> real \<Rightarrow> real \<Rightarrow> string" where
  "generate_reasoning fmt shp length_width forehead_jaw jawline_angle =
     (let reasons =
        [(OVAL, ''Balanced proportions with length-to-width ratio of '' @ fmt 2 length_width),
         (ROUND, ''Face length approximately equals width (ratio: '' @ fmt 2 length_width @ '')''),
         (SQUARE, ''Angular jawline ('' @ fmt 0 jawline_angle @ [CHR 0xC2, CHR 0xB0]
                   @ '') with balanced proportions''),
         (HEART, ''Forehead wider than jaw (ratio: '' @ fmt 2 forehead_jaw @ '')''),
         (OBLONG, ''Face length significantly exceeds width (ratio: '' @ fmt 2 length_width @ '')''),
         (DIAMOND, ''Prominent cheekbones with narrower forehead and jaw''),
         (TRIANGLE, ''Jaw wider than forehead (ratio: '' @ fmt 2 forehead_jaw @ '')'')]
      in case map_of reasons shp of
           None \<Rightarrow> ''Classification based on facial measurements''
         | Some r \<Rightarrow> r)"

definition apply_classification_rules ::
  "(nat \<Rightarrow> real \<Rightarrow> string) \<Rightarrow> real \<Rightarrow> real \<Rightarrow> real \<Rightarrow> real \<Rightarrow> real \<Rightarrow>
     py_error + (FaceShape \<times> real \<times> string)" where
  "apply_classification_rules fmt length_width forehead_jaw jawline_angle
       cheekbone_forehead_ratio cheekbone_jaw_ratio =
     (let scores = shape_scores length_width forehead_jaw jawline_angle
                     cheekbone_forehead_ratio cheekbone_jaw_ratio
      in bind_err (max_by_score scores) (\<lambda>best_shape.
         bind_err (dict_item scores best_shape) (\<lambda>best_score.
           let sorted_scores = rev (sort (map snd scores));
               confidence =
                 (if length sorted_scores > 1
                  then (let score_gap = sorted_scores ! 0 - sorted_scores ! 1
                        in min 0.98 (0.7 + score_gap * 0.5))
                  else 0.85);
               (best_shape, confidence) =
                 (if best_score < 0.3 then (OVAL, 0.6) else (best_shape, confidence));
               reasoning = generate_reasoning fmt best_shape length_width forehead_jaw jawline_angle
           in Inr (best_shape, confidence, reasoning))))"

definition classify :: "(nat \<Rightarrow> real \<Rightarrow> string) \<Rightarrow> (string \<rightharpoonup> real) \<Rightarrow> py_error + FaceShapeResult" where
  "classify fmt measurements =
     (let length_width = dict_get measurements ''length_width_ratio'' 1.0;
          forehead_jaw = dict_get measurements ''forehead_jaw_ratio'' 1.0;
          jawline_angle = dict_get measurements ''jawline_angle'' 140;
          forehead_width = dict_get measurements ''forehead_width'' 1;
          jaw_width = dict_get measurements ''jaw_width'' 1;
          cheekbone_width = dict_get measurements ''cheekbone_width'' 1
      in bind_err (if forehead_width > 0 then py_truediv cheekbone_width forehead_width else Inr 1)
           (\<lambda>cheekbone_forehead_ratio.
         bind_err (if jaw_width > 0 then py_truediv cheekbone_width jaw_width else Inr 1)
           (\<lambda>cheekbone_jaw_ratio.
         bind_err (apply_classification_rules fmt length_width forehead_jaw jawline_angle
                     cheekbone_forehead_ratio cheekbone_jaw_ratio)
           (\<lambda>(shp, conf, reason).
              Inr \<lparr>shape = shp, fs_confidence = conf, fs_measurements = measurements,
                    reasoning = reason\<rparr>))))"

text \<open>
  The scores in the words of the specification: the seven per-category scores of a
  measurement mapping, on the two input ratios, the jawline angle (missing keys read as
  ratio 1.0 and angle 140) and the two auxiliary ratios cheekbone/forehead and
  cheekbone/jaw (1 when the denominator is not positive); the top score; and the
  second-highest score, the highest of the scores left when the top one is taken out once.
\<close>

definition category_scores :: "(string \<rightharpoonup> real) \<Rightarrow> (FaceShape \<times> real) list" where
  "category_scores m =
     (let fw = dict_get m ''forehead_width'' 1;
          jw = dict_get m ''jaw_width'' 1;
          cw = dict_get m ''cheekbone_width'' 1
      in shape_scores (dict_get m ''length_width_ratio'' 1) (dict_get m ''forehead_jaw_ratio'' 1)
           (dict_get m ''jawline_angle'' 140)
           (if fw > 0 then cw / fw else 1) (if jw > 0 then cw / jw else 1))"

definition top_score :: "real list \<Rightarrow> real" where
  "top_score vs = Max (set vs)"

definition second_score :: "real list \<Rightarrow> real" where
  "second_score vs = Max (set (remove1 (Max (set vs)) vs))"

section \<open>Arrays and the external image library\<close>

text \<open>
  A two-dimensional numpy array (an image's third axis is inside the cell): its shape and
  its cells. \<open>img_size\<close> is \<open>.size\<close> of a three-channel image; \<open>cells\<close> lists the
  cells in row-major order.
\<close>

record 'a grid =
  nrows :: nat
  ncols :: nat
  cell :: "nat \<Rightarrow> nat \<Rightarrow> 'a"

definition img_size :: "'a grid \<Rightarrow> nat" where
  "img_size g = nrows g * ncols g * 3"

definition cells :: "'a grid \<Rightarrow> 'a list" where
  "cells g = concat (map (\<lambda>i. map (cell g i) [0..<ncols g]) [0..<nrows g])"

definition map_grid :: "('a \<Rightarrow> 'b) \<Rightarrow> 'a grid \<Rightarrow> 'b grid" where
  "map_grid f g = \<lparr>nrows = nrows g, ncols = ncols g, cell = (\<lambda>i j. f (cell g i j))\<rparr>"

text \<open>\<open>np.sum\<close> of a boolean array: the number of true cells.\<close>

definition count_true :: "bool grid \<Rightarrow> nat" where
  "count_true g = length (filter (\<lambda>b. b) (cells g))"

text \<open>\<open>np.mean\<close>; on an empty array it is nan (with a warning, no raise): \<open>None\<close>.\<close>

definition np_mean :: "real list \<Rightarrow> real option" where
  "np_mean xs = (if xs = [] then None else Some (sum_list xs / real (length xs)))"

text \<open>
  A slice \<open>a[start:stop]\<close> of an axis of length \<open>n\<close>: a negative index counts from the
  end, and both ends are clipped to the axis.
\<close>

definition slice_bounds :: "nat \<Rightarrow> int \<Rightarrow> int \<Rightarrow> nat \<times> nat" where
  "slice_bounds n start stop =
     (let s = (if start < 0 then max 0 (int n + start) else min (int n) start);
          e = (if stop < 0 then max 0 (int n + stop) else min (int n) stop)
      in (nat s, nat (max s e)))"

definition slice2 :: "'a grid \<Rightarrow> int \<Rightarrow> int \<Rightarrow> int \<Rightarrow> int \<Rightarrow> 'a grid" where
  "slice2 g r0 r1 c0 c1 =
     (let (rs, re) = slice_bounds (nrows g) r0 r1;
          (cs, ce) = slice_bounds (ncols g) c0 c1
      in \<lparr>nrows = re - rs, ncols = ce - cs, cell = (\<lambda>i j. cell g (rs + i) (cs + j))\<rparr>)"

text \<open>
  An elementwise operation on two arrays, with numpy's broadcasting: an axis of length 1
  is stretched, any other mismatch raises.
\<close>

definition broadcast_dim :: "nat \<Rightarrow> nat \<Rightarrow> py_error + nat" where
  "broadcast_dim m n =
     (if m = n then Inr m else if m = 1 then Inr n else if n = 1 then Inr m else Inl ValueError)"

definition np_zip :: "('a \<Rightarrow> 'b \<Rightarrow> 'c) \<Rightarrow> 'a grid \<Rightarrow> 'b grid \<Rightarrow> py_error + 'c grid" where
  "np_zip f a b =
     bind_err (broadcast_dim (nrows a) (nrows b)) (\<lambda>r.
     bind_err (broadcast_dim (ncols a) (ncols b)) (\<lambda>c.
       Inr \<lparr>nrows = r, ncols = c,
            cell = (\<lambda>i j. f (cell a (if nrows a = 1 then 0 else i) (if ncols a = 1 then 0 else j))
                             (cell b (if nrows b = 1 then 0 else i) (if ncols b = 1 then 0 else j)))\<rparr>))"

text \<open>Python's \<open>int()\<close> of a float: truncation towards zero.\<close>

definition py_int :: "real \<Rightarrow> int" where
  "py_int r = (if r \<ge> 0 then \<lfloor>r\<rfloor> else \<lceil>r\<rceil>)"

text \<open>
  The calls into OpenCV that the detectors make, each a parameter that may raise. The
  structuring element (a 3 by 3 ellipse) is fixed in the source and is part of
  \<open>dilate\<close> and \<open>morphologyEx\<close> here. \<open>lab_to_hex\<close> stands for
  \<open>SkinToneDetector._lab_to_hex\<close>, which is numpy casts around one OpenCV colour
  conversion and a format string.
\<close>

datatype morph_op = MORPH_CLOSE | MORPH_OPEN

record 'p cv2 =
  cvtColor_HSV :: "'p grid \<Rightarrow> py_error + (nat \<times> nat \<times> nat) grid"
  cvtColor_GRAY :: "'p grid \<Rightarrow> py_error + nat grid"
  Canny :: "nat grid \<Rightarrow> nat \<Rightarrow> nat \<Rightarrow> py_error + nat grid"
  dilate :: "bool grid \<Rightarrow> nat \<Rightarrow> py_error + bool grid"
  morphologyEx :: "nat grid \<Rightarrow> morph_op \<Rightarrow> py_error + nat grid"
  cvtColor_LAB :: "'p grid \<Rightarrow> py_error + (nat \<times> nat \<times> nat) grid"
  inRange :: "(nat \<times> nat \<times> nat) grid \<Rightarrow> nat \<times> nat \<times> nat \<Rightarrow> nat \<times> nat \<times> nat
                \<Rightarrow> py_error + nat grid"
  bitwise_or :: "nat grid \<Rightarrow> nat grid \<Rightarrow> py_error + nat grid"
  lab_to_hex :: "real \<Rightarrow> real \<Rightarrow> real \<Rightarrow> py_error + string"

section \<open>Hair coverage detector (ai/face\_analysis/baldness.py)\<close>

datatype HairCoverageLevel = FULL | THINNING | BALD

fun level_value :: "HairCoverageLevel \<Rightarrow> string" where
  "level_value FULL = ''full''"
| "level_value THINNING = ''thinning''"
| "level_value BALD = ''bald''"

record BaldnessResult =
  coverage_level :: HairCoverageLevel
  coverage_percentage :: real
  bd_confidence :: real
  requires_alternative_styling :: bool

definition FULL_COVERAGE_THRESHOLD :: real where
  "FULL_COVERAGE_THRESHOLD = 0.80"

definition THINNING_THRESHOLD :: real where
  "THINNING_THRESHOLD = 0.40"

text \<open>
  The rectangle \<open>(scalp_x, scalp_y, scalp_w, scalp_h)\<close> that \<open>_extract_scalp_region\<close>
  computes before its size test.
\<close>

definition scalp_rect :: "'p grid \<Rightarrow> int \<times> int \<times> int \<times> int \<Rightarrow> int \<times> int \<times> int \<times> int" where
  "scalp_rect img face_bbox =
     (let (x, y, w, h) = face_bbox;
          img_height = int (nrows img);
          img_width = int (ncols img);
          scalp_height = py_int (real_of_int h * 0.5);
          scalp_y = max 0 (y - scalp_height);
          scalp_h = y - scalp_y;
          scalp_x = max 0 (x - py_int (real_of_int w * 0.1));
          scalp_w = min (img_width - scalp_x) (py_int (real_of_int w * 1.2))
      in (scalp_x, scalp_y, scalp_w, scalp_h))"

definition extract_scalp_region :: "'p grid \<Rightarrow> int \<times> int \<times> int \<times> int \<Rightarrow> 'p grid option" where
  "extract_scalp_region img face_bbox =
     (let (scalp_x, scalp_y, scalp_w, scalp_h) = scalp_rect img face_bbox
      in if scalp_h < 10 \<or> scalp_w < 10 then None
         else Some (slice2 img scalp_y (scalp_y + scalp_h) scalp_x (scalp_x + scalp_w)))"

definition calculate_hair_coverage :: "'p cv2 \<Rightarrow> 'p grid \<Rightarrow> py_error + real \<times> real" where
  "calculate_hair_coverage cv region =
     (if img_size region = 0 then Inr (100.0, 0.5)
      else
        bind_err (cvtColor_HSV cv region) (\<lambda>hsv.
        bind_err (cvtColor_GRAY cv region) (\<lambda>gray.
          let mean_brightness = np_mean (map real (cells gray));
              dark_threshold =
                (case mean_brightness of None \<Rightarrow> 50 | Some m \<Rightarrow> max 50 (m * 0.6));
              dark_mask = map_grid (\<lambda>v. real v < dark_threshold) gray;
              low_sat_mask = map_grid (\<lambda>(h, s, v). s < 80) hsv
          in
        bind_err (Canny cv gray 50 150) (\<lambda>edges.
          let texture_mask = map_grid (\<lambda>e. e > 0) edges
          in
        bind_err (dilate cv texture_mask 2) (\<lambda>dilated.
        bind_err (np_zip (\<or>) low_sat_mask dilated) (\<lambda>low_sat_or_texture.
        bind_err (np_zip (\<and>) dark_mask low_sat_or_texture) (\<lambda>hair_mask.
        bind_err (morphologyEx cv (map_grid (\<lambda>b. if b then 1 else 0) hair_mask) MORPH_CLOSE)
          (\<lambda>hair_mask.
        bind_err (morphologyEx cv hair_mask MORPH_OPEN) (\<lambda>hair_mask.
          let total_pixels = nrows region * ncols region;
              hair_pixels = count_true (map_grid (\<lambda>v. v > 0) hair_mask);
              coverage_percentage =
                (if total_pixels > 0 then (real hair_pixels / real total_pixels) * 100 else 0);
              edge_ratio = real (count_true texture_mask) / real total_pixels;
              confidence = min 0.95 (0.7 + edge_ratio * 0.5)
          in Inr (coverage_percentage, confidence))))))))))"

definition BaldnessDetector_analyze ::
  "'p cv2 \<Rightarrow> 'p grid \<Rightarrow> int \<times> int \<times> int \<times> int \<Rightarrow> py_error + BaldnessResult option" where
  "BaldnessDetector_analyze cv img face_bbox =
     (case extract_scalp_region img face_bbox of
        None \<Rightarrow>
          Inr (Some \<lparr>coverage_level = FULL, coverage_percentage = 100.0, bd_confidence = 0.5,
                      requires_alternative_styling = False\<rparr>)
      | Some scalp_region \<Rightarrow>
          if img_size scalp_region = 0 then
            Inr (Some \<lparr>coverage_level = FULL, coverage_percentage = 100.0, bd_confidence = 0.5,
                        requires_alternative_styling = False\<rparr>)
          else
            bind_err (calculate_hair_coverage cv scalp_region) (\<lambda>(coverage_percentage, confidence).
              let level =
                (if coverage_percentage \<ge> FULL_COVERAGE_THRESHOLD * 100 then FULL
                 else if coverage_percentage \<ge> THINNING_THRESHOLD * 100 then THINNING
                 else BALD)
              in Inr (Some \<lparr>coverage_level = level, coverage_percentage = coverage_percentage,
                             bd_confidence = confidence,
                             requires_alternative_styling = (level \<noteq> FULL)\<rparr>)))"

subsection \<open>A stand-in for the external library\<close>

text \<open>
  An image library on which the model can be run: every pixel has the given brightness
  and no saturation, no edge is found, and \<open>morphologyEx\<close> changes nothing. Its
  \<open>dilate\<close> raises, as OpenCV's does on an array of booleans, which is the only kind of
  array the source passes to it (baldness.py, line 160). \<open>blank_image\<close> is an image of
  the given shape.
\<close>

definition stub_cv2 :: "nat \<Rightarrow> unit cv2" where
  "stub_cv2 brightness =
             \<lparr>cvtColor_HSV = (\<lambda>g. Inr (map_grid (\<lambda>p. (0, 0, 0)) g)),
               cvtColor_GRAY = (\<lambda>g. Inr (map_grid (\<lambda>p. brightness) g)),
               Canny = (\<lambda>g lo hi. Inr (map_grid (\<lambda>v. 0) g)),
               dilate = (\<lambda>g n. Inl CvError),
               morphologyEx = (\<lambda>g op. Inr g),
               cvtColor_LAB = (\<lambda>g. Inr (map_grid (\<lambda>p. (brightness, 128, 128)) g)),
               inRange = (\<lambda>g (l0, l1, l2) (u0, u1, u2).
                 Inr (map_grid (\<lambda>(h, s, v).
                        if l0 \<le> h \<and> h \<le> u0 \<and> l1 \<le> s \<and> s \<le> u1 \<and> l2 \<le> v \<and> v \<le> u2
                        then 255 else 0) g)),
               bitwise_or = (\<lambda>a b.
                 if nrows a = nrows b \<and> ncols a = ncols b
                 then Inr \<lparr>nrows = nrows a, ncols = ncols a,
                           cell = (\<lambda>i j. max (cell a i j) (cell b i j))\<rparr>
                 else Inl CvError),
               lab_to_hex = (\<lambda>l a b. Inr ''#000000'')\<rparr>"

definition blank_image :: "nat \<Rightarrow> nat \<Rightarrow> unit grid" where
  "blank_image h w = \<lparr>nrows = h, ncols = w, cell = (\<lambda>i j. ())\<rparr>"


section \<open>Skin tone detector: analyze (ai/face\_analysis/skin\_tone.py)\<close>

record SkinToneResult =
  fitzpatrick_type :: FitzpatrickType
  undertone :: Undertone
  st_confidence :: real
  lab_values :: "real \<times> real \<times> real"
  hex_color :: string

text \<open>
  \<open>lab[mask > 0]\<close>: the cells of \<open>lab\<close> where the boolean array of the same shape is
  true, in row-major order; on another shape numpy raises.
\<close>

definition bool_index :: "'a grid \<Rightarrow> bool grid \<Rightarrow> py_error + 'a list" where
  "bool_index a m =
     (if nrows a = nrows m \<and> ncols a = ncols m
      then Inr (map fst (filter snd (zip (cells a) (cells m))))
      else Inl IndexError)"

definition extract_skin_lab_values ::
  "'p cv2 \<Rightarrow> 'p grid \<Rightarrow> py_error + (nat \<times> nat \<times> nat) list option" where
  "extract_skin_lab_values cv region =
     (if img_size region = 0 then Inr None
      else
        bind_err (cvtColor_HSV cv region) (\<lambda>hsv.
        bind_err (cvtColor_LAB cv region) (\<lambda>lab.
        bind_err (inRange cv hsv (0, 20, 70) (20, 255, 255)) (\<lambda>mask1.
        bind_err (inRange cv hsv (0, 10, 60) (25, 255, 255)) (\<lambda>mask2.
        bind_err (bitwise_or cv mask1 mask2) (\<lambda>mask.
        bind_err (morphologyEx cv mask MORPH_OPEN) (\<lambda>mask.
        bind_err (morphologyEx cv mask MORPH_CLOSE) (\<lambda>mask.
        bind_err (bool_index lab (map_grid (\<lambda>v. v > 0) mask)) (\<lambda>skin_pixels.
          let skin_pixels =
                (if length skin_pixels < 10 then
                   (let h = int (nrows region);
                        w = int (ncols region);
                        center_region = slice2 lab (h div 4) (3 * h div 4) (w div 4) (3 * w div 4)
                    in cells center_region)
                 else skin_pixels)
          in Inr (if length skin_pixels > 0 then Some skin_pixels else None))))))))))"

text \<open>The \<open>for\<close> loop of \<open>analyze\<close> over the regions, \<open>all_lab_values\<close> its state.\<close>

fun lab_loop ::
  "'p cv2 \<Rightarrow> (nat \<times> nat \<times> nat) list \<Rightarrow> 'p grid list \<Rightarrow> py_error + (nat \<times> nat \<times> nat) list" where
  "lab_loop cv all_lab_values [] = Inr all_lab_values"
| "lab_loop cv all_lab_values (region # rest) =
     (if img_size region = 0 then lab_loop cv all_lab_values rest
      else
        bind_err (extract_skin_lab_values cv region) (\<lambda>lab_values.
          case lab_values of
            None \<Rightarrow> lab_loop cv all_lab_values rest
          | Some vs \<Rightarrow> lab_loop cv (all_lab_values @ vs) rest))"

definition SkinToneDetector_analyze ::
  "'p cv2 \<Rightarrow> 'p grid list \<Rightarrow> py_error + SkinToneResult option" where
  "SkinToneDetector_analyze cv skin_regions =
     (if skin_regions = [] \<or> list_all (\<lambda>r. img_size r = 0) skin_regions then Inr None
      else
        bind_err (lab_loop cv [] skin_regions) (\<lambda>all_lab_values.
          if all_lab_values = [] then Inr None
          else
            let n = real (length all_lab_values);
                avg_l = sum_list (map (\<lambda>(l, a, b). real l) all_lab_values) / n;
                avg_a = sum_list (map (\<lambda>(l, a, b). real a) all_lab_values) / n;
                avg_b = sum_list (map (\<lambda>(l, a, b). real b) all_lab_values) / n;
                (fitzpatrick_type, fitz_confidence) = classify_fitzpatrick avg_l;
                (undertone, undertone_confidence) = classify_undertone avg_a avg_b;
                confidence = (fitz_confidence + undertone_confidence) / 2
            in bind_err (lab_to_hex cv avg_l avg_a avg_b) (\<lambda>hex_color.
                 Inr (Some \<lparr>fitzpatrick_type = fitzpatrick_type, undertone = undertone,
                             st_confidence = confidence, lab_values = (avg_l, avg_a, avg_b),
                             hex_color = hex_color\<rparr>))))"

section \<open>Orchestrator (ai/face\_analysis/analyzer.py)\<close>

record FaceDetectionResult =
  landmarks :: "(real \<times> real \<times> real) list"
  bbox :: "int \<times> int \<times> int \<times> int"
  det_confidence :: real
  image_shape :: "nat \<times> nat"

text \<open>
  The \<open>face_detector\<close> field of the analyzer: the landmark provider, an object with
  the four methods \<open>analyze\<close> calls, each of which may raise.
\<close>

record 'p FaceDetector =
  detect :: "'p grid \<Rightarrow> py_error + FaceDetectionResult option"
  get_cheek_regions :: "'p grid \<Rightarrow> (real \<times> real \<times> real) list \<Rightarrow> py_error + 'p grid \<times> 'p grid"
  get_forehead_region :: "'p grid \<Rightarrow> (real \<times> real \<times> real) list \<Rightarrow> py_error + 'p grid"
  get_face_measurements :: "(real \<times> real \<times> real) list \<Rightarrow> py_error + (string \<rightharpoonup> real)"

record FaceAnalysisResult =
  detected :: bool
  skin_tone :: "SkinToneResult option"
  face_shape :: "FaceShapeResult option"
  hair_coverage :: "BaldnessResult option"
  color_season :: "string option"
  overall_confidence :: real

text \<open>
  \<open>FaceAnalyzer.analyze\<close>. A \<open>FaceShapeResult\<close> object is always true in a condition,
  so its confidence is always appended; the two optional results are tested for \<open>None\<close>.
\<close>

definition FaceAnalyzer_analyze ::
  "'p FaceDetector \<Rightarrow> 'p cv2 \<Rightarrow> (nat \<Rightarrow> real \<Rightarrow> string) \<Rightarrow> 'p grid \<Rightarrow> py_error + FaceAnalysisResult" where
  "FaceAnalyzer_analyze face_detector cv fmt img =
     bind_err (detect face_detector img) (\<lambda>detection.
       case detection of
         None \<Rightarrow>
           Inr \<lparr>detected = False, skin_tone = None, face_shape = None, hair_coverage = None,
                 color_season = None, overall_confidence = 0.0\<rparr>
       | Some detection \<Rightarrow>
           bind_err (get_cheek_regions face_detector img (landmarks detection))
             (\<lambda>(left_cheek, right_cheek).
           bind_err (get_forehead_region face_detector img (landmarks detection)) (\<lambda>forehead.
             let skin_regions =
                   (if img_size left_cheek > 0 then [left_cheek] else [])
                   @ (if img_size right_cheek > 0 then [right_cheek] else [])
                   @ (if img_size forehead > 0 then [forehead] else [])
             in
           bind_err (SkinToneDetector_analyze cv skin_regions) (\<lambda>skin_tone_result.
           bind_err (get_face_measurements face_detector (landmarks detection)) (\<lambda>measurements.
           bind_err (classify fmt measurements) (\<lambda>face_shape_result.
           bind_err (BaldnessDetector_analyze cv img (bbox detection)) (\<lambda>baldness_result.
             let color_season =
                   (case skin_tone_result of
                      None \<Rightarrow> None
                    | Some st \<Rightarrow> Some (get_season (fitzpatrick_type st) (undertone st)));
                 confidences =
                   (case skin_tone_result of None \<Rightarrow> [] | Some st \<Rightarrow> [st_confidence st])
                   @ [fs_confidence face_shape_result]
                   @ (case baldness_result of None \<Rightarrow> [] | Some b \<Rightarrow> [bd_confidence b]);
                 overall_confidence =
                   (if confidences \<noteq> [] then sum_list confidences / real (length confidences)
                    else 0.0)
             in Inr \<lparr>detected = True, skin_tone = skin_tone_result,
                      face_shape = Some face_shape_result, hair_coverage = baldness_result,
                      color_season = color_season,
                      overall_confidence = overall_confidence\<rparr>)))))))"

text \<open>
  A stand-in landmark provider: it finds a face or not as told (one whose bounding box
  leaves less than 10 pixels of scalp above it), and cuts out empty cheek and forehead
  regions and no measurement.
\<close>

definition stub_detector :: "bool \<Rightarrow> unit FaceDetector" where
  "stub_detector found =
     \<lparr>detect = (\<lambda>img. Inr (if found
                   then Some \<lparr>landmarks = [], bbox = (0, 5, 10, 20), det_confidence = 0.95,
                               image_shape = (nrows img, ncols img)\<rparr>
                   else None)),
       get_cheek_regions = (\<lambda>img lms. Inr (blank_image 0 0, blank_image 0 0)),
       get_forehead_region = (\<lambda>img lms. Inr (blank_image 0 0)),
       get_face_measurements = (\<lambda>lms. Inr Map.empty)\<rparr>"


section \<open>Theorems\<close>

subsection \<open>Season derivation\<close>

text \<open>
  The part of the season table that \<open>get_season\<close> computes as the specification has it:
  the four warm and cool cases, and neutral skin above level 3.
\<close>

lemma get_season_warm_cool:
  "get_season f WARM = (if fitz_value f \<le> 3 then ''spring'' else ''autumn'') \<and>
   get_season f COOL = (if fitz_value f \<le> 3 then ''summer'' else ''winter'') \<and>
   (fitz_value f > 3 \<longrightarrow> get_season f NEUTRAL = ''winter'')"
  by (simp add: get_season_def)

text \<open>
  C1. The claim has neutral skin of level 3 or below behave as warm skin and come out as
  spring. \<open>get_season\<close> only tests whether the undertone is warm, so neutral skin is
  treated as not warm at every level: at level 2 it returns summer, where the sibling rule
  \<open>determine_season\<close> of the recommendation engine, which has the tie-break, returns
  spring.
\<close>

theorem get_season_neutral_light:
  "get_season TYPE_II NEUTRAL = ''summer'' \<and>
   season_value (determine_season (fitz_value TYPE_II) ''neutral'') = ''spring''"
  by (simp add: get_season_def determine_season_def lower_def lower_char_def)

subsection \<open>Tone classification\<close>

lemma band_confidence_bounds: "0.7 \<le> band_confidence lo hi l \<and> band_confidence lo hi l \<le> 0.98"
  unfolding band_confidence_def by (simp only: max_def min_def) auto

lemma classify_fitzpatrick_in_band:
  "(75 \<le> L \<and> L < 100 \<longrightarrow> classify_fitzpatrick L = (TYPE_I, band_confidence 75 100 L)) \<and>
   (65 \<le> L \<and> L < 75 \<longrightarrow> classify_fitzpatrick L = (TYPE_II, band_confidence 65 75 L)) \<and>
   (55 \<le> L \<and> L < 65 \<longrightarrow> classify_fitzpatrick L = (TYPE_III, band_confidence 55 65 L)) \<and>
   (45 \<le> L \<and> L < 55 \<longrightarrow> classify_fitzpatrick L = (TYPE_IV, band_confidence 45 55 L)) \<and>
   (35 \<le> L \<and> L < 45 \<longrightarrow> classify_fitzpatrick L = (TYPE_V, band_confidence 35 45 L)) \<and>
   (0 \<le> L \<and> L < 35 \<longrightarrow> classify_fitzpatrick L = (TYPE_VI, band_confidence 0 35 L)) \<and>
   (100 \<le> L \<longrightarrow> classify_fitzpatrick L = (TYPE_I, 0.85)) \<and>
   (L < 0 \<longrightarrow> classify_fitzpatrick L = (TYPE_VI, 0.85))"
  by (simp add: classify_fitzpatrick_def FITZPATRICK_L_THRESHOLDS_def band_confidence_def)

text \<open>
  C2. A luminance inside one of the six bands is given that band's level, with the
  confidence \<open>1 - |L - centre| / (width / 2)\<close> clamped to \<open>[0.7, 0.98]\<close>; a luminance
  of 100 or more is given level 1 and a negative one level 6, both at confidence 0.85.
  So the confidence is never below 0.7, and \<open>L = 60\<close> is level 3.
\<close>

theorem classify_fitzpatrick_bands:
  "(75 \<le> L \<and> L < 100 \<longrightarrow> classify_fitzpatrick L = (TYPE_I, band_confidence 75 100 L)) \<and>
   (65 \<le> L \<and> L < 75 \<longrightarrow> classify_fitzpatrick L = (TYPE_II, band_confidence 65 75 L)) \<and>
   (55 \<le> L \<and> L < 65 \<longrightarrow> classify_fitzpatrick L = (TYPE_III, band_confidence 55 65 L)) \<and>
   (45 \<le> L \<and> L < 55 \<longrightarrow> classify_fitzpatrick L = (TYPE_IV, band_confidence 45 55 L)) \<and>
   (35 \<le> L \<and> L < 45 \<longrightarrow> classify_fitzpatrick L = (TYPE_V, band_confidence 35 45 L)) \<and>
   (0 \<le> L \<and> L < 35 \<longrightarrow> classify_fitzpatrick L = (TYPE_VI, band_confidence 0 35 L)) \<and>
   (100 \<le> L \<longrightarrow> classify_fitzpatrick L = (TYPE_I, 0.85)) \<and>
   (L < 0 \<longrightarrow> classify_fitzpatrick L = (TYPE_VI, 0.85)) \<and>
   0.7 \<le> snd (classify_fitzpatrick L) \<and> snd (classify_fitzpatrick L) \<le> 0.98 \<and>
   fitz_value (fst (classify_fitzpatrick 60)) = 3 \<and> 0.7 \<le> snd (classify_fitzpatrick 60)"
proof -
  note bands = classify_fitzpatrick_in_band [of L]
  have bounds: "0.7 \<le> snd (classify_fitzpatrick L) \<and> snd (classify_fitzpatrick L) \<le> 0.98"
  proof -
    consider "75 \<le> L \<and> L < 100" | "65 \<le> L \<and> L < 75" | "55 \<le> L \<and> L < 65"
      | "45 \<le> L \<and> L < 55" | "35 \<le> L \<and> L < 45" | "0 \<le> L \<and> L < 35"
      | "100 \<le> L" | "L < 0"
      by linarith
    then show ?thesis
    proof cases
      case 1 with bands show ?thesis by (simp only: snd_conv band_confidence_bounds)
    next
      case 2 with bands show ?thesis by (simp only: snd_conv band_confidence_bounds)
    next
      case 3 with bands show ?thesis by (simp only: snd_conv band_confidence_bounds)
    next
      case 4 with bands show ?thesis by (simp only: snd_conv band_confidence_bounds)
    next
      case 5 with bands show ?thesis by (simp only: snd_conv band_confidence_bounds)
    next
      case 6 with bands show ?thesis by (simp only: snd_conv band_confidence_bounds)
    next
      case 7 with bands show ?thesis by simp
    next
      case 8 with bands show ?thesis by simp
    qed
  qed
  have sixty: "classify_fitzpatrick 60 = (TYPE_III, 0.98)"
    using classify_fitzpatrick_in_band [of 60] by (simp add: band_confidence_def)
  show ?thesis using bands bounds sixty by simp
qed

theorem classify_fitzpatrick_bands_witness:
  "classify_fitzpatrick 80 = (TYPE_I, 0.7) \<and>
   classify_fitzpatrick 70 = (TYPE_II, 0.98) \<and>
   classify_fitzpatrick 60 = (TYPE_III, 0.98) \<and>
   classify_fitzpatrick 52 = (TYPE_IV, 0.7) \<and>
   classify_fitzpatrick 39 = (TYPE_V, 0.8) \<and>
   classify_fitzpatrick 20 = (TYPE_VI, 6 / 7) \<and>
   classify_fitzpatrick 100 = (TYPE_I, 0.85) \<and>
   classify_fitzpatrick (- 1) = (TYPE_VI, 0.85)"
proof -
  have c: "band_confidence 75 100 80 = 0.7" "band_confidence 65 75 70 = 0.98"
    "band_confidence 55 65 60 = 0.98" "band_confidence 45 55 52 = 0.7"
    "band_confidence 35 45 39 = 0.8" "band_confidence 0 35 20 = 6 / 7"
    by (simp_all add: band_confidence_def)
  show ?thesis
  using classify_fitzpatrick_bands [of 80] classify_fitzpatrick_bands [of 70]
    classify_fitzpatrick_bands [of 60] classify_fitzpatrick_bands [of 52]
    classify_fitzpatrick_bands [of 39] classify_fitzpatrick_bands [of 20]
    classify_fitzpatrick_bands [of 100] classify_fitzpatrick_bands [of "- 1"]
  by (simp add: c)
qed

subsection \<open>Undertone classification\<close>

text \<open>Rounding a number whose binary exponent is known.\<close>

lemma binary64_normal:
  assumes "2 powi k \<le> \<bar>x\<bar>" and "\<bar>x\<bar> < 2 powi (k + 1)" and "- 1022 \<le> k"
  shows "binary64 x = of_int (round_half_even (x / 2 powi (k - 52))) * 2 powi (k - 52)"
proof -
  have pos: "0 < \<bar>x\<bar>" using assms(1) by (smt (verit) zero_less_power_int)
  have up: "(2::real) powr (real_of_int k + 1) = 2 powi (k + 1)"
    using powr_real_of_int' [of "2::real" "k + 1"] by simp
  have lo: "(2::real) powr real_of_int k = 2 powi k"
    using powr_real_of_int' [of "2::real" k] by simp
  have "\<lfloor>log 2 \<bar>x\<bar>\<rfloor> = k"
    using assms(1,2) pos by (simp add: floor_log_eq_powr_iff up lo)
  with assms(3) pos show ?thesis by (simp add: binary64_def Let_def)
qed

text \<open>The literals of \<open>_classify_undertone\<close> as doubles, and the sums the examples need.\<close>

lemma binary64_literals:
  "binary64 1.1 = 4953959590107546 / 2 ^ 52"
  "binary64 0.9 = 8106479329266893 / 2 ^ 53"
  "binary64 0.8 = 7205759403792794 / 2 ^ 53"
  "binary64 0.15 = 5404319552844595 / 2 ^ 55"
  "binary64 0.95 = 8556839292003942 / 2 ^ 53"
  "binary64 1.0 = 1"
proof -
  show "binary64 1.1 = 4953959590107546 / 2 ^ 52"
    by (subst binary64_normal [where k = 0])
       (simp_all add: round_half_even_def power_int_minus)
  show "binary64 0.9 = 8106479329266893 / 2 ^ 53"
    by (subst binary64_normal [where k = "- 1"])
       (simp_all add: round_half_even_def power_int_minus)
  show "binary64 0.8 = 7205759403792794 / 2 ^ 53"
    by (subst binary64_normal [where k = "- 1"])
       (simp_all add: round_half_even_def power_int_minus)
  show "binary64 0.15 = 5404319552844595 / 2 ^ 55"
    by (subst binary64_normal [where k = "- 3"])
       (simp_all add: round_half_even_def power_int_minus)
  show "binary64 0.95 = 8556839292003942 / 2 ^ 53"
    by (subst binary64_normal [where k = "- 1"])
       (simp_all add: round_half_even_def power_int_minus)
  show "binary64 1.0 = 1"
    by (subst binary64_normal [where k = 0])
       (simp_all add: round_half_even_def power_int_minus)
qed

lemma binary64_128: "binary64 128 = 128"
  by (subst binary64_normal [where k = 7]) (simp_all add: round_half_even_def power_int_minus)

lemma binary64_1: "binary64 1 = 1"
  by (subst binary64_normal [where k = 0]) (simp_all add: round_half_even_def power_int_minus)

lemma neutral_product: "binary64 (5404319552844595 / 2 ^ 55) = 5404319552844595 / 2 ^ 55"
  by (subst binary64_normal [where k = "- 3"])
     (simp_all add: round_half_even_def power_int_minus)

lemma neutral_sum:
  "binary64 (7205759403792794 / 2 ^ 53 + 5404319552844595 / 2 ^ 55) = 8556839292003943 / 2 ^ 53"
  by (subst binary64_normal [where k = "- 1"])
     (simp_all add: round_half_even_def power_int_minus)

text \<open>
  The warm and the cool branch end in \<open>min(0.95, ...)\<close>, so their confidence is at most
  the double 0.95, which is below the real 0.95.
\<close>

lemma warm_cool_clamped:
  "fst (classify_undertone a b) \<noteq> NEUTRAL \<Longrightarrow> snd (classify_undertone a b) \<le> 0.95"
proof -
  assume n: "fst (classify_undertone a b) \<noteq> NEUTRAL"
  have le: "binary64 0.95 \<le> (0.95 :: real)" unfolding binary64_literals by simp
  from n have "snd (classify_undertone a b) \<le> binary64 0.95"
    by (auto simp add: classify_undertone_def Let_def split: if_splits)
  with le show ?thesis by linarith
qed

text \<open>The neutral branch at \<open>a = b = 0\<close>, where the ratio is 1.0.\<close>

lemma classify_undertone_at_zero:
  "classify_undertone 0 0 = (NEUTRAL, 8556839292003943 / 2 ^ 53)"
proof -
  have zero: "binary64 0 = 0" by (simp add: binary64_def)
  have shifted: "(fadd 0 128 = 0) = False" by (simp add: fadd_def binary64_128)
  have ratio: "fdiv (fadd 0 128) (fadd 0 128) = 1"
    by (simp add: fdiv_def fadd_def binary64_128 binary64_1)
  have not_warm: "(binary64 1.1 < 1) = False" unfolding binary64_literals by simp
  have not_cool: "(1 < binary64 0.9) = False" unfolding binary64_literals by simp
  have dist: "fsub (binary64 1.0) \<bar>fsub 1 (binary64 1.0)\<bar> = 1"
    unfolding binary64_literals fsub_def by (simp add: zero binary64_1)
  have conf: "fadd (binary64 0.8) (fmul 1 (binary64 0.15)) = 8556839292003943 / 2 ^ 53"
    unfolding fadd_def fmul_def binary64_literals
    by (simp only: mult_1 neutral_product neutral_sum)
  show ?thesis
    unfolding classify_undertone_def Let_def
    by (simp only: shifted if_False ratio not_warm not_cool dist conf)
qed

text \<open>
  The rest of the claim at its three examples: \<open>a = - 28\<close> with \<open>b = - 13\<close> has
  ratio 1.15 and is warm, with \<open>b = - 43\<close> it has ratio 0.85 and is cool, and
  \<open>a = b = 0\<close> is neutral.
\<close>

lemma classify_undertone_examples:
  "fst (classify_undertone (- 28) (- 13)) = WARM"
  "fst (classify_undertone (- 28) (- 43)) = COOL"
  "fst (classify_undertone 0 0) = NEUTRAL"
proof -
  have b100: "binary64 100 = 100"
    by (subst binary64_normal [where k = 6]) (simp_all add: round_half_even_def power_int_minus)
  have b115: "binary64 115 = 115"
    by (subst binary64_normal [where k = 6]) (simp_all add: round_half_even_def power_int_minus)
  have b85: "binary64 85 = 85"
    by (subst binary64_normal [where k = 6]) (simp_all add: round_half_even_def power_int_minus)
  have r115: "binary64 (115 / 100) = 5179139571476070 / 2 ^ 52"
    by (subst binary64_normal [where k = 0]) (simp_all add: round_half_even_def power_int_minus)
  have r85: "binary64 (85 / 100) = 7656119366529843 / 2 ^ 53"
    by (subst binary64_normal [where k = "- 1"])
       (simp_all add: round_half_even_def power_int_minus)
  have a: "fadd (- 28) 128 = 100" by (simp add: fadd_def b100)
  have nz: "(100 = (0 :: real)) = False" by simp
  have b_warm: "fadd (- 13) 128 = 115" by (simp add: fadd_def b115)
  have b_cool: "fadd (- 43) 128 = 85" by (simp add: fadd_def b85)
  have warm_ratio: "fdiv (fadd (- 13) 128) 100 = 5179139571476070 / 2 ^ 52"
    unfolding b_warm fdiv_def by (rule r115)
  have cool_ratio: "fdiv (fadd (- 43) 128) 100 = 7656119366529843 / 2 ^ 53"
    unfolding b_cool fdiv_def by (rule r85)
  have is_warm: "(binary64 1.1 < 5179139571476070 / 2 ^ 52) = True"
    unfolding binary64_literals by simp
  have not_warm: "(binary64 1.1 < 7656119366529843 / 2 ^ 53) = False"
    unfolding binary64_literals by simp
  have is_cool: "(7656119366529843 / 2 ^ 53 < binary64 0.9) = True"
    unfolding binary64_literals by simp
  show "fst (classify_undertone (- 28) (- 13)) = WARM"
    unfolding classify_undertone_def Let_def
    by (simp only: a nz if_False warm_ratio is_warm if_True fst_conv)
  show "fst (classify_undertone (- 28) (- 43)) = COOL"
    unfolding classify_undertone_def Let_def
    by (simp only: a nz if_False cool_ratio not_warm is_cool if_True fst_conv)
  show "fst (classify_undertone 0 0) = NEUTRAL"
    by (simp only: classify_undertone_at_zero fst_conv)
qed

text \<open>
  C3. The claim bounds the confidence by 0.95 in every branch. The neutral branch of
  \<open>_classify_undertone\<close> has no \<open>min\<close>: at \<open>a = b = 0\<close> the ratio is 1.0, the
  undertone is neutral, and the confidence \<open>0.8 + (1.0 - 0.0) * 0.15\<close> is the double
  \<open>8556839292003943 / 2 ^ 53\<close> (printed 0.9500000000000001), above 0.95.
\<close>

theorem neutral_confidence_above_bound:
  "classify_undertone 0 0 = (NEUTRAL, 8556839292003943 / 2 ^ 53) \<and>
   (0.95 :: real) < 8556839292003943 / 2 ^ 53"
proof
  show "classify_undertone 0 0 = (NEUTRAL, 8556839292003943 / 2 ^ 53)"
    by (rule classify_undertone_at_zero)
  show "(0.95 :: real) < 8556839292003943 / 2 ^ 53" by simp
qed

subsection \<open>Face shape: the two reference measurements\<close>

lemmas shape_thresholds = ROUND_LENGTH_WIDTH_THRESHOLD_def OBLONG_LENGTH_WIDTH_THRESHOLD_def
  HEART_FOREHEAD_JAW_THRESHOLD_def TRIANGLE_FOREHEAD_JAW_THRESHOLD_def
  SQUARE_JAWLINE_ANGLE_THRESHOLD_def DIAMOND_CHEEKBONE_THRESHOLD_def

lemma scores_oval:
  "shape_scores 1.2 1.0 140 1 1 =
     [(ROUND, 0.6), (OBLONG, 0.2), (HEART, 0.2), (TRIANGLE, 0), (SQUARE, 0.3),
      (DIAMOND, 0.2), (OVAL, 1)]"
  by (simp add: shape_scores_def shape_thresholds)

lemma scores_oblong:
  "shape_scores 1.4 1.0 140 1 1 =
     [(ROUND, 0.6), (OBLONG, 0.85), (HEART, 0.2), (TRIANGLE, 0), (SQUARE, 0.3),
      (DIAMOND, 0), (OVAL, 0.6)]"
  by (simp add: shape_scores_def shape_thresholds)

lemma rules_oval:
  "apply_classification_rules fmt 1.2 1.0 140 1 1 =
     Inr (OVAL, 0.9, generate_reasoning fmt OVAL 1.2 1.0 140)"
  unfolding apply_classification_rules_def scores_oval
  by (simp add: max_by_score_def dict_item_def bind_err_def)

lemma rules_oblong:
  "apply_classification_rules fmt 1.4 1.0 140 1 1 =
     Inr (OBLONG, 0.825, generate_reasoning fmt OBLONG 1.4 1.0 140)"
  unfolding apply_classification_rules_def scores_oblong
  by (simp add: max_by_score_def dict_item_def bind_err_def)

text \<open>
  C4. On the mapping that holds length/width ratio 1.2, forehead/jaw ratio 1.0 and jawline
  angle 140 (the width keys absent, so read as their defaults) \<open>classify\<close> returns the
  category oval; with length/width ratio 1.4 instead it returns oblong.
\<close>

theorem classify_oval_oblong:
  "(\<exists>r. classify fmt [''length_width_ratio'' \<mapsto> 1.2, ''forehead_jaw_ratio'' \<mapsto> 1.0,
                       ''jawline_angle'' \<mapsto> 140] = Inr r
        \<and> shape_value (shape r) = ''oval'') \<and>
   (\<exists>r. classify fmt [''length_width_ratio'' \<mapsto> 1.4, ''forehead_jaw_ratio'' \<mapsto> 1.0,
                       ''jawline_angle'' \<mapsto> 140] = Inr r
        \<and> shape_value (shape r) = ''oblong'')"
proof -
  have oval: "\<exists>r. classify fmt [''length_width_ratio'' \<mapsto> 1.2, ''forehead_jaw_ratio'' \<mapsto> 1.0,
                       ''jawline_angle'' \<mapsto> 140] = Inr r \<and> shape_value (shape r) = ''oval''"
    unfolding classify_def using rules_oval [of fmt]
    by (simp add: dict_get_def py_truediv_def bind_err_def)
  have oblong: "\<exists>r. classify fmt [''length_width_ratio'' \<mapsto> 1.4, ''forehead_jaw_ratio'' \<mapsto> 1.0,
                       ''jawline_angle'' \<mapsto> 140] = Inr r \<and> shape_value (shape r) = ''oblong''"
    unfolding classify_def using rules_oblong [of fmt]
    by (simp add: dict_get_def py_truediv_def bind_err_def)
  from oval oblong show ?thesis by (rule conjI)
qed

subsection \<open>Face shape: the reference measurements with width keys\<close>

text \<open>
  With the three width keys present the two auxiliary ratios come into play. At
  length/width ratio 1.4 the category is oblong whatever they are. At ratio 1.2 it is
  oval unless both cheekbone ratios exceed 1.05: then diamond scores 1.0 as well and,
  being stored before oval, is the one \<open>max\<close> returns. The mappings of the unit tests
  (widths 100, 100 and 95) give oval and oblong.
\<close>

lemma rules_oblong_any_cheekbones:
  "apply_classification_rules fmt 1.4 1.0 140 cf cj =
     Inr (OBLONG, (if cf > 1.05 \<and> cj > 1.05 then 0.725 else 0.825),
          generate_reasoning fmt OBLONG 1.4 1.0 140)"
proof -
  consider "cf > 1.05 \<and> cj > 1.05" | "cf > 1.05 \<and> \<not> cj > 1.05"
    | "\<not> cf > 1.05 \<and> cj > 1.05" | "\<not> cf > 1.05 \<and> \<not> cj > 1.05" by blast
  then show ?thesis
  proof cases
    case 1
    then have "shape_scores 1.4 1.0 140 cf cj =
      [(ROUND, 0.6), (OBLONG, 0.85), (HEART, 0.2), (TRIANGLE, 0), (SQUARE, 0.3),
       (DIAMOND, 0.8), (OVAL, 0.6)]"
      by (simp add: shape_scores_def shape_thresholds)
    with 1 show ?thesis unfolding apply_classification_rules_def
      by (simp add: max_by_score_def dict_item_def bind_err_def)
  next
    case 2
    then have "shape_scores 1.4 1.0 140 cf cj =
      [(ROUND, 0.6), (OBLONG, 0.85), (HEART, 0.2), (TRIANGLE, 0), (SQUARE, 0.3),
       (DIAMOND, 0.4), (OVAL, 0.6)]"
      by (simp add: shape_scores_def shape_thresholds)
    with 2 show ?thesis unfolding apply_classification_rules_def
      by (simp add: max_by_score_def dict_item_def bind_err_def)
  next
    case 3
    then have "shape_scores 1.4 1.0 140 cf cj =
      [(ROUND, 0.6), (OBLONG, 0.85), (HEART, 0.2), (TRIANGLE, 0), (SQUARE, 0.3),
       (DIAMOND, 0.4), (OVAL, 0.6)]"
      by (simp add: shape_scores_def shape_thresholds)
    with 3 show ?thesis unfolding apply_classification_rules_def
      by (simp add: max_by_score_def dict_item_def bind_err_def)
  next
    case 4
    then have "shape_scores 1.4 1.0 140 cf cj =
      [(ROUND, 0.6), (OBLONG, 0.85), (HEART, 0.2), (TRIANGLE, 0), (SQUARE, 0.3),
       (DIAMOND, 0), (OVAL, 0.6)]"
      by (simp add: shape_scores_def shape_thresholds)
    with 4 show ?thesis unfolding apply_classification_rules_def
      by (simp add: max_by_score_def dict_item_def bind_err_def)
  qed
qed

lemma rules_oval_unless_diamond:
  assumes "\<not> (cf > 1.05 \<and> cj > 1.05)"
  shows "apply_classification_rules fmt 1.2 1.0 140 cf cj =
         Inr (OVAL, 0.9, generate_reasoning fmt OVAL 1.2 1.0 140)"
proof -
  from assms consider "cf > 1.05 \<and> \<not> cj > 1.05"
    | "\<not> cf > 1.05 \<and> cj > 1.05" | "\<not> cf > 1.05 \<and> \<not> cj > 1.05" by blast
  then show ?thesis
  proof cases
    case 1
    then have "shape_scores 1.2 1.0 140 cf cj =
      [(ROUND, 0.6), (OBLONG, 0.2), (HEART, 0.2), (TRIANGLE, 0), (SQUARE, 0.3),
       (DIAMOND, 0.6), (OVAL, 1)]"
      by (simp add: shape_scores_def shape_thresholds)
    with 1 show ?thesis unfolding apply_classification_rules_def
      by (simp add: max_by_score_def dict_item_def bind_err_def)
  next
    case 2
    then have "shape_scores 1.2 1.0 140 cf cj =
      [(ROUND, 0.6), (OBLONG, 0.2), (HEART, 0.2), (TRIANGLE, 0), (SQUARE, 0.3),
       (DIAMOND, 0.6), (OVAL, 1)]"
      by (simp add: shape_scores_def shape_thresholds)
    with 2 show ?thesis unfolding apply_classification_rules_def
      by (simp add: max_by_score_def dict_item_def bind_err_def)
  next
    case 3
    then have "shape_scores 1.2 1.0 140 cf cj =
      [(ROUND, 0.6), (OBLONG, 0.2), (HEART, 0.2), (TRIANGLE, 0), (SQUARE, 0.3),
       (DIAMOND, 0.2), (OVAL, 1)]"
      by (simp add: shape_scores_def shape_thresholds)
    with 3 show ?thesis unfolding apply_classification_rules_def
      by (simp add: max_by_score_def dict_item_def bind_err_def)
  qed
qed

lemma rules_diamond_tie:
  assumes "cf > 1.05" and "cj > 1.05"
  shows "apply_classification_rules fmt 1.2 1.0 140 cf cj =
         Inr (DIAMOND, 0.7, generate_reasoning fmt DIAMOND 1.2 1.0 140)"
proof -
  from assms have "shape_scores 1.2 1.0 140 cf cj =
      [(ROUND, 0.6), (OBLONG, 0.2), (HEART, 0.2), (TRIANGLE, 0), (SQUARE, 0.3),
       (DIAMOND, 1), (OVAL, 1)]"
    by (simp add: shape_scores_def shape_thresholds)
  then show ?thesis unfolding apply_classification_rules_def
    by (simp add: max_by_score_def dict_item_def bind_err_def)
qed

lemma classify_unit_test_mappings:
  "(\<exists>r. classify fmt [''length_width_ratio'' \<mapsto> 1.2, ''forehead_jaw_ratio'' \<mapsto> 1.0,
                       ''jawline_angle'' \<mapsto> 140, ''forehead_width'' \<mapsto> 100,
                       ''jaw_width'' \<mapsto> 100, ''cheekbone_width'' \<mapsto> 95] = Inr r
        \<and> shape_value (shape r) = ''oval'') \<and>
   (\<exists>r. classify fmt [''length_width_ratio'' \<mapsto> 1.4, ''forehead_jaw_ratio'' \<mapsto> 1.0,
                       ''jawline_angle'' \<mapsto> 140, ''forehead_width'' \<mapsto> 100,
                       ''jaw_width'' \<mapsto> 100, ''cheekbone_width'' \<mapsto> 95] = Inr r
        \<and> shape_value (shape r) = ''oblong'')"
proof -
  have nd: "\<not> ((95 / 100 :: real) > 1.05 \<and> (95 / 100 :: real) > 1.05)" by simp
  from rules_oval_unless_diamond [OF nd, of fmt]
    rules_oblong_any_cheekbones [of fmt "95 / 100" "95 / 100"]
  show ?thesis
    unfolding classify_def
    by (simp add: dict_get_def py_truediv_def bind_err_def)
qed

lemma classify_prominent_cheekbones:
  "\<exists>r. classify fmt [''length_width_ratio'' \<mapsto> 1.2, ''forehead_jaw_ratio'' \<mapsto> 1.0,
                       ''jawline_angle'' \<mapsto> 140, ''forehead_width'' \<mapsto> 100,
                       ''jaw_width'' \<mapsto> 100, ''cheekbone_width'' \<mapsto> 110] = Inr r
        \<and> shape_value (shape r) = ''diamond''"
proof -
  have "apply_classification_rules fmt 1.2 1.0 140 (110 / 100) (110 / 100) =
         Inr (DIAMOND, 0.7, generate_reasoning fmt DIAMOND 1.2 1.0 140)"
    by (rule rules_diamond_tie) simp_all
  then show ?thesis
    unfolding classify_def
    by (simp add: dict_get_def py_truediv_def bind_err_def)
qed


subsection \<open>Face shape: the selection rule\<close>

lemma max_loop_mem: "max_loop best rest \<in> set (best # rest)"
  by (induction rest arbitrary: best) auto

lemma max_loop_ge: "kv \<in> set (best # rest) \<Longrightarrow> snd kv \<le> snd (max_loop best rest)"
proof (induction rest arbitrary: best kv)
  case Nil
  then show ?case by simp
next
  case (Cons a rest)
  show ?case
  proof (cases "snd a > snd best")
    case True
    from Cons.prems have "kv = best \<or> kv \<in> set (a # rest)" by auto
    then show ?thesis
    proof
      assume "kv = best"
      with True have "snd kv \<le> snd a" by simp
      also have "snd a \<le> snd (max_loop a rest)" using Cons.IH [of a a] by simp
      finally show ?thesis using True by simp
    next
      assume "kv \<in> set (a # rest)"
      then show ?thesis using True Cons.IH [of kv a] by simp
    qed
  next
    case False
    from Cons.prems have "kv = a \<or> kv \<in> set (best # rest)" by auto
    then show ?thesis
    proof
      assume "kv = a"
      with False have "snd kv \<le> snd best" by simp
      also have "snd best \<le> snd (max_loop best rest)" using Cons.IH [of best best] by simp
      finally show ?thesis using False by simp
    next
      assume "kv \<in> set (best # rest)"
      then show ?thesis using False Cons.IH [of kv best] by simp
    qed
  qed
qed

lemma max_loop_top: "snd (max_loop best rest) = top_score (map snd (best # rest))"
proof -
  have "snd (max_loop best rest) \<in> set (map snd (best # rest))"
    using max_loop_mem [of best rest] by (metis imageI set_map)
  moreover have "\<forall>v \<in> set (map snd (best # rest)). v \<le> snd (max_loop best rest)"
    using max_loop_ge [of _ best rest] by auto
  ultimately show ?thesis
    unfolding top_score_def by (intro Max_eqI [symmetric]) auto
qed

lemma max_by_score_top:
  assumes "scores \<noteq> []" and "distinct (map fst scores)"
  shows "\<exists>best. max_by_score scores = Inr best
           \<and> dict_item scores best = Inr (top_score (map snd scores))
           \<and> (best, top_score (map snd scores)) \<in> set scores"
proof -
  from assms(1) obtain kv rest where sc: "scores = kv # rest" by (cases scores) auto
  let ?b = "max_loop kv rest"
  have mem: "?b \<in> set scores" unfolding sc by (rule max_loop_mem)
  have top: "snd ?b = top_score (map snd scores)" unfolding sc by (rule max_loop_top)
  from mem top have pair: "(fst ?b, top_score (map snd scores)) \<in> set scores"
    by (metis prod.collapse)
  with assms(2) have "map_of scores (fst ?b) = Some (top_score (map snd scores))"
    by (rule_tac map_of_is_SomeI)
  then have "dict_item scores (fst ?b) = Inr (top_score (map snd scores))"
    by (simp add: dict_item_def)
  moreover have "max_by_score scores = Inr (fst ?b)" by (simp add: max_by_score_def sc)
  ultimately show ?thesis using pair by blast
qed

lemma sorted_desc_two:
  assumes "length vs > 1"
  shows "rev (sort vs) ! 0 = top_score vs \<and> rev (sort vs) ! 1 = second_score vs"
proof -
  define d where "d = rev (sort vs)"
  have len: "length d = length vs" by (simp add: d_def)
  with assms obtain x y rest where d: "d = x # y # rest"
    by (cases d; cases "tl d") auto
  have ms: "mset d = mset vs" by (simp add: d_def)
  have st: "sorted_wrt (\<lambda>a b. b \<le> a) d"
    using sorted_sort [of vs] by (simp add: d_def sorted_wrt_rev)
  have setd: "set vs = set d" using ms by (metis set_mset_mset)
  have x_max: "Max (set vs) = x"
    unfolding setd using st d by (intro Max_eqI) auto
  have "mset vs = add_mset x (mset (y # rest))"
    using ms d by simp
  then have "mset (remove1 x vs) = mset (y # rest)"
    by (simp only: mset_remove1 add_mset_remove_trivial)
  then have "set (remove1 x vs) = set (y # rest)" by (metis set_mset_mset)
  moreover have "Max (set (y # rest)) = y"
    using st d by (intro Max_eqI) auto
  ultimately have "second_score vs = y"
    by (simp add: second_score_def x_max)
  then show ?thesis
    using x_max d by (simp add: d_def [symmetric] top_score_def)
qed


lemma shape_scores_keys:
  "map fst (shape_scores lw fj ja cf cj) = [ROUND, OBLONG, HEART, TRIANGLE, SQUARE, DIAMOND, OVAL]"
  by (simp add: shape_scores_def Let_def)

lemma guarded_truediv:
  "(if w > 0 then py_truediv c w else Inr 1) = Inr (if w > 0 then c / w else 1)"
  by (simp add: py_truediv_def)

lemma apply_classification_rules_spec:
  fixes lw fj ja cf cj :: real
  defines "scores \<equiv> shape_scores lw fj ja cf cj"
  shows "\<exists>s c. apply_classification_rules fmt lw fj ja cf cj
             = Inr (s, c, generate_reasoning fmt s lw fj ja) \<and>
           (if top_score (map snd scores) < 0.3 then s = OVAL \<and> c = 0.6
            else (s, top_score (map snd scores)) \<in> set scores \<and>
                 c = min 0.98 (0.7 + 0.5 * (top_score (map snd scores) - second_score (map snd scores))))"
proof -
  have keys: "map fst scores = [ROUND, OBLONG, HEART, TRIANGLE, SQUARE, DIAMOND, OVAL]"
    unfolding scores_def by (rule shape_scores_keys)
  have "length (map fst scores) = 7" unfolding keys by simp
  then have len: "length scores = 7" by simp
  have ne: "scores \<noteq> []" using len by auto
  have dist: "distinct (map fst scores)" unfolding keys by simp
  from max_by_score_top [OF ne dist] obtain best where
    best: "max_by_score scores = Inr best"
    and item: "dict_item scores best = Inr (top_score (map snd scores))"
    and mem: "(best, top_score (map snd scores)) \<in> set scores"
    by blast
  have "length (map snd scores) > 1" using len by simp
  from sorted_desc_two [OF this]
  have s0: "rev (sort (map snd scores)) ! 0 = top_score (map snd scores)"
    and s1: "rev (sort (map snd scores)) ! 1 = second_score (map snd scores)"
    by simp_all
  have slen: "length (rev (sort (map snd scores))) > 1" using len by simp
  show ?thesis
  proof (cases "top_score (map snd scores) < 0.3")
    case True
    then have "apply_classification_rules fmt lw fj ja cf cj
                 = Inr (OVAL, 0.6, generate_reasoning fmt OVAL lw fj ja)"
      unfolding apply_classification_rules_def scores_def [symmetric] Let_def
      by (simp add: best item bind_err_def)
    with True show ?thesis
      by (intro exI [of _ OVAL] exI [of _ "0.6"]) simp
  next
    case False
    then have "apply_classification_rules fmt lw fj ja cf cj
                 = Inr (best, min 0.98 (0.7 + (top_score (map snd scores) - second_score (map snd scores)) * 0.5),
                        generate_reasoning fmt best lw fj ja)"
      unfolding apply_classification_rules_def scores_def [symmetric] Let_def
      using slen s1 by (simp add: best item bind_err_def s0 del: length_rev length_sort length_map)
    with False mem show ?thesis
      by (intro exI [of _ best]
            exI [of _ "min 0.98 (0.7 + (top_score (map snd scores) - second_score (map snd scores)) * 0.5)"])
         (simp add: mult.commute)
  qed
qed

text \<open>
  C5. \<open>classify\<close> returns a result on every measurement mapping (it never raises). When
  the top one of the seven scores is at least 0.3, the category returned has that top
  score and the confidence is \<open>min(0.98, 0.7 + 0.5 * (top - second))\<close>; when the top
  score is below 0.3 the category is oval and the confidence 0.6.
\<close>

theorem classify_picks_maximum:
  "\<exists>r. classify fmt m = Inr r \<and>
     (if top_score (map snd (category_scores m)) < 0.3
      then shape r = OVAL \<and> fs_confidence r = 0.6
      else (shape r, top_score (map snd (category_scores m))) \<in> set (category_scores m) \<and>
           fs_confidence r =
             min 0.98 (0.7 + 0.5 * (top_score (map snd (category_scores m))
                                    - second_score (map snd (category_scores m)))))"
proof -
  define lw where "lw = dict_get m ''length_width_ratio'' (1::real)"
  define fj where "fj = dict_get m ''forehead_jaw_ratio'' (1::real)"
  define ja where "ja = dict_get m ''jawline_angle'' (140::real)"
  define fw where "fw = dict_get m ''forehead_width'' (1::real)"
  define jw where "jw = dict_get m ''jaw_width'' (1::real)"
  define cw where "cw = dict_get m ''cheekbone_width'' (1::real)"
  define cf where "cf = (if fw > 0 then cw / fw else 1)"
  define cj where "cj = (if jw > 0 then cw / jw else 1)"
  have cs: "category_scores m = shape_scores lw fj ja cf cj"
    by (simp add: category_scores_def Let_def lw_def fj_def ja_def fw_def jw_def cw_def cf_def cj_def)
  from apply_classification_rules_spec [of fmt lw fj ja cf cj]
  obtain s c where
    rules: "apply_classification_rules fmt lw fj ja cf cj = Inr (s, c, generate_reasoning fmt s lw fj ja)"
    and sel: "if top_score (map snd (category_scores m)) < 0.3 then s = OVAL \<and> c = 0.6
            else (s, top_score (map snd (category_scores m))) \<in> set (category_scores m) \<and>
                 c = min 0.98 (0.7 + 0.5 * (top_score (map snd (category_scores m))
                        - second_score (map snd (category_scores m))))"
    unfolding cs by blast
  have "classify fmt m = Inr \<lparr>shape = s, fs_confidence = c, fs_measurements = m,
                              reasoning = generate_reasoning fmt s lw fj ja\<rparr>"
    unfolding classify_def Let_def guarded_truediv
    by (simp split del: if_split cong: if_cong add: bind_err_def rules
         lw_def [symmetric] fj_def [symmetric] ja_def [symmetric] fw_def [symmetric]
         jw_def [symmetric] cw_def [symmetric] cf_def [symmetric] cj_def [symmetric])
  with sel show ?thesis by auto
qed

text \<open>
  The theorem at a mapping where no score reaches 0.3 (every ratio on a threshold), and at
  the round face of the unit tests.
\<close>

lemma scores_fallback:
  "category_scores [''length_width_ratio'' \<mapsto> 1.3, ''forehead_jaw_ratio'' \<mapsto> 1.1, ''jawline_angle'' \<mapsto> 150] =
     [(ROUND, 0), (OBLONG, 0), (HEART, 0.2), (TRIANGLE, 0), (SQUARE, 0), (DIAMOND, 0), (OVAL, 0)]"
  by (simp add: category_scores_def dict_get_def shape_scores_def shape_thresholds)

lemma scores_round:
  "category_scores [''length_width_ratio'' \<mapsto> 1.05, ''forehead_jaw_ratio'' \<mapsto> 0.98, ''jawline_angle'' \<mapsto> 135,
      ''forehead_width'' \<mapsto> 100, ''jaw_width'' \<mapsto> 102, ''cheekbone_width'' \<mapsto> 100] =
     [(ROUND, 1), (OBLONG, 0.2), (HEART, 0.2), (TRIANGLE, 0), (SQUARE, 0.6), (DIAMOND, 0), (OVAL, 0.6)]"
  by (simp add: category_scores_def dict_get_def shape_scores_def shape_thresholds)

theorem classify_picks_maximum_witness:
  "(\<exists>r. classify (\<lambda>n x. []) [''length_width_ratio'' \<mapsto> 1.3, ''forehead_jaw_ratio'' \<mapsto> 1.1, ''jawline_angle'' \<mapsto> 150] = Inr r
      \<and> shape r = OVAL \<and> fs_confidence r = 0.6) \<and>
   (\<exists>r. classify (\<lambda>n x. []) [''length_width_ratio'' \<mapsto> 1.05, ''forehead_jaw_ratio'' \<mapsto> 0.98, ''jawline_angle'' \<mapsto> 135,
      ''forehead_width'' \<mapsto> 100, ''jaw_width'' \<mapsto> 102, ''cheekbone_width'' \<mapsto> 100] = Inr r
      \<and> shape r = ROUND \<and> fs_confidence r = 0.9)"
proof -
  show ?thesis
    using classify_picks_maximum [of "\<lambda>n x. []" "[''length_width_ratio'' \<mapsto> 1.3, ''forehead_jaw_ratio'' \<mapsto> 1.1, ''jawline_angle'' \<mapsto> 150]"]
      classify_picks_maximum [of "\<lambda>n x. []" "[''length_width_ratio'' \<mapsto> 1.05, ''forehead_jaw_ratio'' \<mapsto> 0.98, ''jawline_angle'' \<mapsto> 135,
      ''forehead_width'' \<mapsto> 100, ''jaw_width'' \<mapsto> 102, ''cheekbone_width'' \<mapsto> 100]"]
    unfolding scores_fallback scores_round
    by (simp add: top_score_def second_score_def)
qed

subsection \<open>Hair coverage\<close>

lemma bind_err_Inr: "bind_err x f = Inr r \<longleftrightarrow> (\<exists>v. x = Inr v \<and> f v = Inr r)"
  by (cases x) (simp_all add: bind_err_def)

lemma analyze_level:
  assumes "BaldnessDetector_analyze cv img face_bbox = Inr (Some r)"
  shows "(coverage_level r = FULL \<longleftrightarrow> coverage_percentage r \<ge> 80) \<and>
         (coverage_level r = THINNING \<longleftrightarrow> 40 \<le> coverage_percentage r \<and> coverage_percentage r < 80) \<and>
         (coverage_level r = BALD \<longleftrightarrow> coverage_percentage r < 40) \<and>
         (requires_alternative_styling r \<longleftrightarrow> coverage_level r \<noteq> FULL)"
proof (cases "extract_scalp_region img face_bbox")
  case None
  with assms show ?thesis by (auto simp add: BaldnessDetector_analyze_def)
next
  case (Some region)
  show ?thesis
  proof (cases "img_size region = 0")
    case True
    with Some assms show ?thesis by (auto simp add: BaldnessDetector_analyze_def)
  next
    case False
    with Some assms obtain pct conf where
      "calculate_hair_coverage cv region = Inr (pct, conf)"
      and r: "r = \<lparr>coverage_level =
                     (if pct \<ge> FULL_COVERAGE_THRESHOLD * 100 then FULL
                      else if pct \<ge> THINNING_THRESHOLD * 100 then THINNING else BALD),
                   coverage_percentage = pct, bd_confidence = conf,
                   requires_alternative_styling =
                     ((if pct \<ge> FULL_COVERAGE_THRESHOLD * 100 then FULL
                       else if pct \<ge> THINNING_THRESHOLD * 100 then THINNING else BALD) \<noteq> FULL)\<rparr>"
      by (auto simp add: BaldnessDetector_analyze_def bind_err_Inr Let_def)
    show ?thesis
      unfolding r by (simp add: FULL_COVERAGE_THRESHOLD_def THINNING_THRESHOLD_def)
  qed
qed

text \<open>
  C6. When the scalp rectangle is lower or narrower than 10 pixels, \<open>analyze\<close> does not
  fail: it returns the result with level full, percentage 100.0, confidence 0.5 and no
  alternative styling. In every result that \<open>analyze\<close> returns, alternative styling is
  required exactly when the level is not full.
\<close>

theorem analyze_without_scalp:
  "(scalp_rect img face_bbox = (sx, sy, sw, sh) \<and> (sh < 10 \<or> sw < 10) \<longrightarrow>
      BaldnessDetector_analyze cv img face_bbox =
        Inr (Some \<lparr>coverage_level = FULL, coverage_percentage = 100.0, bd_confidence = 0.5,
                    requires_alternative_styling = False\<rparr>)) \<and>
   (BaldnessDetector_analyze cv img face_bbox = Inr (Some r) \<longrightarrow>
      (requires_alternative_styling r \<longleftrightarrow> coverage_level r \<noteq> FULL))"
proof (intro conjI impI)
  assume "scalp_rect img face_bbox = (sx, sy, sw, sh) \<and> (sh < 10 \<or> sw < 10)"
  then have "extract_scalp_region img face_bbox = None"
    by (auto simp add: extract_scalp_region_def)
  then show "BaldnessDetector_analyze cv img face_bbox =
        Inr (Some \<lparr>coverage_level = FULL, coverage_percentage = 100.0, bd_confidence = 0.5,
                    requires_alternative_styling = False\<rparr>)"
    by (simp add: BaldnessDetector_analyze_def)
next
  assume "BaldnessDetector_analyze cv img face_bbox = Inr (Some r)"
  from analyze_level [OF this]
  show "requires_alternative_styling r \<longleftrightarrow> coverage_level r \<noteq> FULL" by blast
qed

theorem analyze_without_scalp_witness:
  "scalp_rect (blank_image 20 20) (0, 5, 10, 20) = (0, 0, 12, 5) \<and>
   BaldnessDetector_analyze (stub_cv2 0) (blank_image 20 20) (0, 5, 10, 20) =
     Inr (Some \<lparr>coverage_level = FULL, coverage_percentage = 100.0, bd_confidence = 0.5,
                 requires_alternative_styling = False\<rparr>) \<and>
   (requires_alternative_styling \<lparr>coverage_level = FULL, coverage_percentage = 100.0,
        bd_confidence = 0.5, requires_alternative_styling = False\<rparr>
      \<longleftrightarrow> coverage_level \<lparr>coverage_level = FULL, coverage_percentage = 100.0,
        bd_confidence = 0.5, requires_alternative_styling = False\<rparr> \<noteq> FULL)"
proof -
  have rect: "scalp_rect (blank_image 20 20) (0, 5, 10, 20) = (0, 0, 12, 5)"
    by (simp add: scalp_rect_def blank_image_def py_int_def)
  note inst = analyze_without_scalp
    [of "blank_image 20 20" "(0, 5, 10, 20)" 0 0 12 5 "stub_cv2 0"
        "\<lparr>coverage_level = FULL, coverage_percentage = 100.0, bd_confidence = 0.5,
          requires_alternative_styling = False\<rparr>"]
  from inst rect
  have a: "BaldnessDetector_analyze (stub_cv2 0) (blank_image 20 20) (0, 5, 10, 20) =
     Inr (Some \<lparr>coverage_level = FULL, coverage_percentage = 100.0, bd_confidence = 0.5,
                 requires_alternative_styling = False\<rparr>)"
    by simp
  with inst
  have b: "requires_alternative_styling \<lparr>coverage_level = FULL, coverage_percentage = 100.0,
        bd_confidence = 0.5, requires_alternative_styling = False\<rparr>
      \<longleftrightarrow> coverage_level \<lparr>coverage_level = FULL, coverage_percentage = 100.0,
        bd_confidence = 0.5, requires_alternative_styling = False\<rparr> \<noteq> FULL"
    by blast
  from rect a b show ?thesis by blast
qed

text \<open>
  When \<open>dilate\<close> raises, so does \<open>_calculate_hair_coverage\<close> on every non-empty
  region, unless an earlier call has raised already; \<open>analyze\<close> then raises on every
  face box with a non-empty scalp region, and the default result is the only one it
  returns.
\<close>

lemma hair_coverage_raises:
  assumes dil: "\<And>g n. \<exists>e. dilate cv g n = Inl e"
    and nonempty: "img_size region \<noteq> 0"
  shows "\<exists>e. calculate_hair_coverage cv region = Inl e"
proof (cases "cvtColor_HSV cv region")
  case (Inl e)
  with nonempty show ?thesis by (simp add: calculate_hair_coverage_def bind_err_def)
next
  case hsv: (Inr hsv)
  show ?thesis
  proof (cases "cvtColor_GRAY cv region")
    case (Inl e)
    with nonempty hsv show ?thesis by (simp add: calculate_hair_coverage_def bind_err_def)
  next
    case gray: (Inr gray)
    show ?thesis
    proof (cases "Canny cv gray 50 150")
      case (Inl e)
      with nonempty hsv gray show ?thesis
        by (simp add: calculate_hair_coverage_def bind_err_def Let_def)
    next
      case edges: (Inr edges)
      from dil obtain e where "dilate cv (map_grid (\<lambda>e. e > 0) edges) 2 = Inl e" by blast
      with nonempty hsv gray edges show ?thesis
        by (simp add: calculate_hair_coverage_def bind_err_def Let_def)
    qed
  qed
qed

lemma analyze_raises:
  assumes dil: "\<And>g n. \<exists>e. dilate cv g n = Inl e"
    and region: "extract_scalp_region img face_bbox = Some region"
    and nonempty: "img_size region \<noteq> 0"
  shows "\<exists>e. BaldnessDetector_analyze cv img face_bbox = Inl e"
proof -
  from hair_coverage_raises [OF dil nonempty] obtain e where
    "calculate_hair_coverage cv region = Inl e" by blast
  with region nonempty show ?thesis
    by (simp add: BaldnessDetector_analyze_def bind_err_def)
qed

lemma analyze_returns_only_default:
  assumes dil: "\<And>g n. \<exists>e. dilate cv g n = Inl e"
    and res: "BaldnessDetector_analyze cv img face_bbox = Inr (Some r)"
  shows "r = \<lparr>coverage_level = FULL, coverage_percentage = 100.0, bd_confidence = 0.5,
              requires_alternative_styling = False\<rparr>"
proof (cases "extract_scalp_region img face_bbox")
  case None
  with res show ?thesis by (simp add: BaldnessDetector_analyze_def)
next
  case (Some region)
  show ?thesis
  proof (cases "img_size region = 0")
    case True
    with Some res show ?thesis by (simp add: BaldnessDetector_analyze_def)
  next
    case False
    from analyze_raises [OF dil Some False] res show ?thesis by auto
  qed
qed

lemma scalp_rect_example: "scalp_rect (blank_image 20 20) (0, 10, 10, 20) = (0, 0, 12, 10)"
  by (simp add: scalp_rect_def blank_image_def py_int_def)

lemma extract_scalp_example:
  "extract_scalp_region (blank_image 20 20) (0, 10, 10, 20) = Some (blank_image 10 12)"
  unfolding extract_scalp_region_def scalp_rect_example
  by (simp add: slice2_def slice_bounds_def blank_image_def)


text \<open>
  C7. The claim has \<open>analyze\<close> return a coverage percentage for every scalp region. On
  a non-empty region \<open>_calculate_hair_coverage\<close> passes the boolean \<open>texture_mask\<close> to
  \<open>cv2.dilate\<close> (three lines below, the mask that goes to \<open>morphologyEx\<close> is first
  converted with \<open>astype(np.uint8)\<close>); OpenCV raises on a boolean array, so \<open>analyze\<close>
  raises and returns no percentage: here on a 20 by 20 image with the face box
  \<open>(0, 10, 10, 20)\<close>, whose scalp region is 10 by 12.
\<close>

theorem analyze_raises_on_scalp_region:
  "extract_scalp_region (blank_image 20 20) (0, 10, 10, 20) = Some (blank_image 10 12) \<and>
   img_size (blank_image 10 12) = 360 \<and>
   BaldnessDetector_analyze (stub_cv2 0) (blank_image 20 20) (0, 10, 10, 20) = Inl CvError"
proof -
  have sz: "img_size (blank_image 10 12) = 360" by (simp add: img_size_def blank_image_def)
  have "calculate_hair_coverage (stub_cv2 0) (blank_image 10 12) = Inl CvError"
    using sz by (simp add: calculate_hair_coverage_def stub_cv2_def bind_err_def Let_def)
  then have "BaldnessDetector_analyze (stub_cv2 0) (blank_image 20 20) (0, 10, 10, 20) = Inl CvError"
    unfolding BaldnessDetector_analyze_def extract_scalp_example
    using sz by (simp add: bind_err_def)
  with extract_scalp_example sz show ?thesis by blast
qed

subsection \<open>Skin tone detector: empty input\<close>

text \<open>
  C8. On an empty list of regions, and on a list whose regions all have size zero,
  \<open>analyze\<close> of the skin tone detector returns \<open>None\<close>; it does not raise.
\<close>

theorem skin_analyze_empty:
  "(skin_regions = [] \<or> (\<forall>r \<in> set skin_regions. img_size r = 0)) \<longrightarrow>
     SkinToneDetector_analyze cv skin_regions = Inr None"
  by (auto simp add: SkinToneDetector_analyze_def list_all_iff)

theorem skin_analyze_empty_witness:
  "SkinToneDetector_analyze (stub_cv2 0) [] = Inr None \<and>
   img_size (blank_image 0 5) = 0 \<and> img_size (blank_image 3 0) = 0 \<and>
   SkinToneDetector_analyze (stub_cv2 0) [blank_image 0 5, blank_image 3 0] = Inr None"
proof -
  have z: "\<forall>r \<in> set [blank_image 0 5, blank_image 3 0]. img_size r = 0"
    by (simp add: img_size_def blank_image_def)
  have z1: "img_size (blank_image 0 5) = 0" and z2: "img_size (blank_image 3 0) = 0"
    by (simp_all add: img_size_def blank_image_def)
  from skin_analyze_empty [of "[]" "stub_cv2 0"]
    skin_analyze_empty [of "[blank_image 0 5, blank_image 3 0]" "stub_cv2 0"] z z1 z2
  show ?thesis by blast
qed

subsection \<open>Orchestrator\<close>

text \<open>
  C9. When the landmark provider reports no face, \<open>FaceAnalyzer.analyze\<close> returns the
  result with \<open>detected\<close> false, overall confidence 0.0 and the four sub-results absent.
\<close>

theorem analyze_no_face:
  "detect face_detector img = Inr None \<longrightarrow>
     FaceAnalyzer_analyze face_detector cv fmt img =
       Inr \<lparr>detected = False, skin_tone = None, face_shape = None, hair_coverage = None,
             color_season = None, overall_confidence = 0.0\<rparr>"
  by (simp add: FaceAnalyzer_analyze_def bind_err_def)

theorem analyze_no_face_witness:
  "detect (stub_detector False) (blank_image 20 20) = Inr None \<and>
   FaceAnalyzer_analyze (stub_detector False) (stub_cv2 0) (\<lambda>n x. []) (blank_image 20 20) =
       Inr \<lparr>detected = False, skin_tone = None, face_shape = None, hair_coverage = None,
             color_season = None, overall_confidence = 0\<rparr>"
proof -
  have d: "detect (stub_detector False) (blank_image 20 20) = Inr None"
    by (simp add: stub_detector_def)
  from analyze_no_face [of "stub_detector False" "blank_image 20 20" "stub_cv2 0" "\<lambda>n x. []"] d
  show ?thesis by simp
qed

text \<open>The hair coverage detector never returns \<open>None\<close>.\<close>

lemma baldness_never_none:
  "BaldnessDetector_analyze cv img face_bbox = Inr x \<Longrightarrow> x \<noteq> None"
  by (auto simp add: BaldnessDetector_analyze_def bind_err_Inr Let_def
        split: option.splits if_splits)

text \<open>
  C10. In every result of \<open>FaceAnalyzer.analyze\<close> with \<open>detected\<close> true, the face
  shape and the hair coverage are present; the colour season is absent exactly when the
  skin tone is. (That both can be absent is the run on the stand-in provider below,
  whose regions are empty.)
\<close>

theorem detected_has_shape_and_hair:
  "FaceAnalyzer_analyze face_detector cv fmt img = Inr r \<and> detected r \<longrightarrow>
     face_shape r \<noteq> None \<and> hair_coverage r \<noteq> None \<and>
     (color_season r = None \<longleftrightarrow> skin_tone r = None)"
proof
  assume a: "FaceAnalyzer_analyze face_detector cv fmt img = Inr r \<and> detected r"
  then obtain detection where det: "detect face_detector img = Inr detection"
    unfolding FaceAnalyzer_analyze_def bind_err_Inr by blast
  show "face_shape r \<noteq> None \<and> hair_coverage r \<noteq> None \<and>
     (color_season r = None \<longleftrightarrow> skin_tone r = None)"
  proof (cases detection)
    case None
    with a det show ?thesis by (auto simp add: FaceAnalyzer_analyze_def bind_err_def)
  next
    case (Some d)
    with a det obtain st fs bald where
      bald: "BaldnessDetector_analyze cv img (bbox d) = Inr bald"
      and r: "r = \<lparr>detected = True, skin_tone = st, face_shape = Some fs, hair_coverage = bald,
               color_season = (case st of None \<Rightarrow> None
                    | Some s \<Rightarrow> Some (get_season (fitzpatrick_type s) (undertone s))),
               overall_confidence = overall_confidence r\<rparr>"
      by (auto simp add: FaceAnalyzer_analyze_def bind_err_Inr Let_def split: prod.splits)
    from baldness_never_none [OF bald] have "bald \<noteq> None" .
    then show ?thesis by (subst r, subst r, subst r, subst r) (simp split: option.splits)
  qed
qed


text \<open>The run on the stand-in provider and library.\<close>

lemma scores_default:
  "shape_scores 1 1 140 1 1 =
     [(ROUND, 1), (OBLONG, 0.2), (HEART, 0), (TRIANGLE, 0), (SQUARE, 0.6),
      (DIAMOND, 0), (OVAL, 0.6)]"
  by (simp add: shape_scores_def shape_thresholds)

lemma rules_default:
  "apply_classification_rules fmt 1 1 140 1 1 =
     Inr (ROUND, 0.9, generate_reasoning fmt ROUND 1 1 140)"
  unfolding apply_classification_rules_def scores_default
  by (simp add: max_by_score_def dict_item_def bind_err_def)

lemma classify_default:
  "classify fmt Map.empty =
     Inr \<lparr>shape = ROUND, fs_confidence = 0.9, fs_measurements = Map.empty,
           reasoning = generate_reasoning fmt ROUND 1 1 140\<rparr>"
  unfolding classify_def using rules_default [of fmt]
  by (simp add: dict_get_def py_truediv_def bind_err_def)

lemma analyze_stub_face:
  "FaceAnalyzer_analyze (stub_detector True) (stub_cv2 0) (\<lambda>n x. []) (blank_image 20 20) =
     Inr \<lparr>detected = True, skin_tone = None,
           face_shape = Some \<lparr>shape = ROUND, fs_confidence = 0.9, fs_measurements = Map.empty,
                               reasoning = generate_reasoning (\<lambda>n x. []) ROUND 1 1 140\<rparr>,
           hair_coverage = Some \<lparr>coverage_level = FULL, coverage_percentage = 100,
                                  bd_confidence = 0.5, requires_alternative_styling = False\<rparr>,
           color_season = None, overall_confidence = 0.7\<rparr>"
proof -
  have empty: "img_size (blank_image 0 0) = 0" by (simp add: img_size_def blank_image_def)
  have skin: "SkinToneDetector_analyze (stub_cv2 0) ([] :: unit grid list) = Inr None"
    by (simp add: SkinToneDetector_analyze_def)
  have rect: "scalp_rect (blank_image 20 20) (0, 5, 10, 20) = (0, 0, 12, 5)"
    by (simp add: scalp_rect_def blank_image_def py_int_def)
  have hair: "BaldnessDetector_analyze (stub_cv2 0) (blank_image 20 20) (0, 5, 10, 20) =
     Inr (Some \<lparr>coverage_level = FULL, coverage_percentage = 100, bd_confidence = 0.5,
                 requires_alternative_styling = False\<rparr>)"
    by (simp add: BaldnessDetector_analyze_def extract_scalp_region_def rect)
  show ?thesis
    unfolding FaceAnalyzer_analyze_def
    by (simp add: stub_detector_def bind_err_def empty skin classify_default hair)
qed

theorem detected_has_shape_and_hair_witness:
  "\<exists>r. FaceAnalyzer_analyze (stub_detector True) (stub_cv2 0) (\<lambda>n x. []) (blank_image 20 20) = Inr r
      \<and> detected r \<and> face_shape r \<noteq> None \<and> hair_coverage r \<noteq> None
      \<and> skin_tone r = None \<and> color_season r = None"
proof -
  let ?r = "\<lparr>detected = True, skin_tone = None,
           face_shape = Some \<lparr>shape = ROUND, fs_confidence = 0.9, fs_measurements = Map.empty,
                               reasoning = generate_reasoning (\<lambda>n x. []) ROUND 1 1 140\<rparr>,
           hair_coverage = Some \<lparr>coverage_level = FULL, coverage_percentage = 100,
                                  bd_confidence = 0.5, requires_alternative_styling = False\<rparr>,
           color_season = None, overall_confidence = 0.7\<rparr>"
  have d: "detected ?r" and st: "skin_tone ?r = None" by simp_all
  from detected_has_shape_and_hair
         [of "stub_detector True" "stub_cv2 0" "\<lambda>n x. []" "blank_image 20 20" ?r]
       analyze_stub_face d
  have "face_shape ?r \<noteq> None \<and> hair_coverage ?r \<noteq> None \<and>
        (color_season ?r = None \<longleftrightarrow> skin_tone ?r = None)"
    by blast
  with analyze_stub_face d st show ?thesis by blast
qed


end
